theory Spec2Isabelle
  imports Complex_Main "HOL-Library.Word"
begin

unbundle bit_operations_syntax

section \<open>Errors\<close>

text \<open>
  The exceptions the modelled code can raise. \<open>DeviceNotConnectedError\<close> and
  \<open>DeviceAlreadyConnectedError\<close> are the robot's own; \<open>KeyError\<close> is Python's, carrying the
  missing key; \<open>ValueError\<close> is raised by a negative shift count and by \<open>int(round(nan))\<close>;
  \<open>LinAlgError\<close> is numpy's for a singular matrix; \<open>BusCommunicationFailure\<close> stands for
  whatever the actuator bus raises on its own.
\<close>

datatype error =
    DeviceNotConnectedError
  | DeviceAlreadyConnectedError
  | KeyError string
  | ValueError
  | LinAlgError
  | BusCommunicationFailure

section \<open>Register codec (motors/encoding\_utils.py)\<close>

text \<open>
  Python integers are unbounded: \<open>int\<close>. \<open>1 << sign_bit\<close> raises \<open>ValueError\<close> for a
  negative shift count; the encoder evaluates the shift only on its negative branch.
\<close>

definition encode_sign_magnitude :: "int \<Rightarrow> int \<Rightarrow> error + int" where
  "encode_sign_magnitude v sign_bit =
     (if v < 0 then
        (if sign_bit < 0 then Inl ValueError
         else Inr (\<bar>v\<bar> OR push_bit (nat sign_bit) 1))
      else Inr v)"

definition decode_sign_magnitude :: "int \<Rightarrow> int \<Rightarrow> error + int" where
  "decode_sign_magnitude v sign_bit =
     (if sign_bit < 0 then Inl ValueError
      else
        (let sign_mask = push_bit (nat sign_bit) (1::int);
             magnitude_mask = sign_mask - 1;
             is_negative = (v AND sign_mask \<noteq> 0);
             magnitude = v AND magnitude_mask
         in Inr (if is_negative then - magnitude else magnitude)))"

section \<open>Python values\<close>

text \<open>
  A Python \<open>dict\<close> keeps its keys in insertion order: an association list, whose keys are
  distinct in every dictionary Python builds. Python floats are modelled by the reals: the
  arithmetic of the model is exact, so rounding error, overflow to infinity and NaN are not
  part of it. Where the code divides by zero, numpy answers \<open>inf\<close> or \<open>nan\<close> and the
  conversion \<open>int(round(...))\<close> that follows raises; the model raises there.
\<close>

type_synonym 'v pydict = "(string \<times> 'v) list"

text \<open>
  \<open>round(x)\<close> on a float without a digit count rounds to the nearest integer, a tie to the
  even one.
\<close>

definition py_round :: "real \<Rightarrow> int" where
  "py_round x =
     (let f = \<lfloor>x\<rfloor>; d = x - of_int f
      in if d < 1 / 2 then f else if 1 / 2 < d then f + 1 else if even f then f else f + 1)"

text \<open>
  \<open>s.startswith(p)\<close>, \<open>s.endswith(p)\<close>, \<open>p in s\<close> for strings, and \<open>s.replace(old, "")\<close>, which
  removes the occurrences of \<open>old\<close> from left to right without rescanning.
\<close>

fun startswith :: "string \<Rightarrow> string \<Rightarrow> bool" where
  "startswith s [] = True"
| "startswith [] (c # p) = False"
| "startswith (a # s) (c # p) = (a = c \<and> startswith s p)"

definition endswith :: "string \<Rightarrow> string \<Rightarrow> bool" where
  "endswith s p = startswith (rev s) (rev p)"

fun str_in :: "string \<Rightarrow> string \<Rightarrow> bool" where
  "str_in p [] = (p = [])"
| "str_in p (a # s) = (startswith (a # s) p \<or> str_in p s)"

fun str_remove :: "string \<Rightarrow> string \<Rightarrow> string" where
  "str_remove old [] = []"
| "str_remove old (a # s) =
     (if old \<noteq> [] \<and> startswith (a # s) old
      then str_remove old (drop (length old) (a # s))
      else a # str_remove old s)"

text \<open>
  \<open>d[k]\<close> (a missing key raises \<open>KeyError\<close>), \<open>d[k] = v\<close> (a present key keeps its place, a new
  one is appended), \<open>d.update(e)\<close> (also \<open>{**d, **e}\<close> and a dict comprehension, from the empty
  dictionary) and \<open>dict.fromkeys(ks, v)\<close>.
\<close>

definition dict_get :: "'v pydict \<Rightarrow> string \<Rightarrow> error + 'v" where
  "dict_get d k = (case map_of d k of None \<Rightarrow> Inl (KeyError k) | Some v \<Rightarrow> Inr v)"

fun dict_set :: "'v pydict \<Rightarrow> string \<Rightarrow> 'v \<Rightarrow> 'v pydict" where
  "dict_set [] k v = [(k, v)]"
| "dict_set ((k', v') # d) k v =
     (if k' = k then (k', v) # d else (k', v') # dict_set d k v)"

definition dict_update :: "'v pydict \<Rightarrow> 'v pydict \<Rightarrow> 'v pydict" where
  "dict_update d e = foldl (\<lambda>acc (k, v). dict_set acc k v) d e"

definition fromkeys :: "string list \<Rightarrow> 'v \<Rightarrow> 'v pydict" where
  "fromkeys ks v = dict_update [] (map (\<lambda>k. (k, v)) ks)"

section \<open>Kinematics transform (robot/lekiwi.py)\<close>

text \<open>\<open>LeKiwi._degps_to_raw\<close>: degrees per second to raw ticks, capped to signed 16 bits.\<close>

definition degps_to_raw :: "real \<Rightarrow> int" where
  "degps_to_raw degps =
     (let steps_per_deg = 4096 / 360;
          speed_in_steps = degps * steps_per_deg;
          speed_int = py_round speed_in_steps
      in if speed_int > 32767 then 32767
         else if speed_int < - 32768 then - 32768
         else speed_int)"

text \<open>\<open>LeKiwi._raw_to_degps\<close>.\<close>

definition raw_to_degps :: "int \<Rightarrow> real" where
  "raw_to_degps raw_speed = (let steps_per_deg = 4096 / 360 in of_int raw_speed / steps_per_deg)"

text \<open>\<open>np.radians\<close>, the dot product of two vectors and \<open>m.dot(v)\<close> of a matrix (a list of rows).\<close>

definition radians :: "real \<Rightarrow> real" where
  "radians d = d * (pi / 180)"

definition dot :: "real list \<Rightarrow> real list \<Rightarrow> real" where
  "dot u v = sum_list (map2 (*) u v)"

definition mat_vec :: "real list list \<Rightarrow> real list \<Rightarrow> real list" where
  "mat_vec m v = map (\<lambda>row. dot row v) m"

text \<open>
  The matrix \<open>m\<close> both transforms build: one row \<open>[cos a, sin a, base_radius]\<close> per wheel, at
  the mounting angles 240, 0 and 120 degrees, each offset by \<open>-90\<close>.
\<close>

definition kinematic_matrix :: "real \<Rightarrow> real list list" where
  "kinematic_matrix base_radius =
     (let angles = map (\<lambda>a. radians (a - 90)) [240, 0, 120]
      in map (\<lambda>a. [cos a, sin a, base_radius]) angles)"

text \<open>
  \<open>LeKiwi._body_to_wheel_raw\<close>, in the stages of its body: the linear wheel speeds, the wheel
  speeds in degrees per second, the largest raw magnitude, the uniform scaling, and the
  conversion to raw commands.
\<close>

definition wheel_linear_speeds :: "real \<Rightarrow> real \<Rightarrow> real \<Rightarrow> real \<Rightarrow> real list" where
  "wheel_linear_speeds x y theta base_radius =
     (let theta_rad = theta * (pi / 180);
          velocity_vector = [x, y, theta_rad];
          m = kinematic_matrix base_radius
      in mat_vec m velocity_vector)"

definition wheel_degps :: "real \<Rightarrow> real \<Rightarrow> real \<Rightarrow> real \<Rightarrow> real \<Rightarrow> real list" where
  "wheel_degps x y theta wheel_radius base_radius =
     (let wheel_angular_speeds =
            map (\<lambda>w. w / wheel_radius) (wheel_linear_speeds x y theta base_radius)
      in map (\<lambda>w. w * (180 / pi)) wheel_angular_speeds)"

text \<open>\<open>max(raw_floats)\<close>: Python's \<open>max\<close> runs over the list from its first element.\<close>

definition max_raw_computed :: "real list \<Rightarrow> real" where
  "max_raw_computed degps =
     (let steps_per_deg = 4096 / 360;
          raw_floats = map (\<lambda>d. \<bar>d\<bar> * steps_per_deg) degps
      in foldl max (hd raw_floats) (tl raw_floats))"

definition scale_wheel_degps :: "int \<Rightarrow> real list \<Rightarrow> real list" where
  "scale_wheel_degps max_raw degps =
     (if max_raw_computed degps > of_int max_raw then
        (let scale = of_int max_raw / max_raw_computed degps in map (\<lambda>d. d * scale) degps)
      else degps)"

text \<open>
  The two divisions by zero: with \<open>wheel_radius = 0\<close> every wheel speed is \<open>inf\<close> or \<open>nan\<close>,
  and with a negative \<open>max_raw\<close> and all wheel speeds zero the scale is \<open>-inf\<close> and the scaled
  speeds are \<open>nan\<close>; in both, \<open>int(round(...))\<close> raises.
\<close>

definition body_to_wheel_raw ::
  "real \<Rightarrow> real \<Rightarrow> real \<Rightarrow> real \<Rightarrow> real \<Rightarrow> int \<Rightarrow> error + int pydict" where
  "body_to_wheel_raw x y theta wheel_radius base_radius max_raw =
     (if wheel_radius = 0 then Inl ValueError
      else
        (let degps = wheel_degps x y theta wheel_radius base_radius
         in if max_raw_computed degps > of_int max_raw \<and> max_raw_computed degps = 0
            then Inl ValueError
            else
              (let wheel_raw = map degps_to_raw (scale_wheel_degps max_raw degps)
               in Inr [(''base_left_wheel'', wheel_raw ! 0),
                       (''base_back_wheel'', wheel_raw ! 1),
                       (''base_right_wheel'', wheel_raw ! 2)])))"

text \<open>
  \<open>np.linalg.inv\<close> on a 3 by 3 matrix: the exact inverse (the adjugate over the
  determinant), \<open>LinAlgError\<close> for a singular matrix.
\<close>

definition det3 :: "real list list \<Rightarrow> real" where
  "det3 m =
     m ! 0 ! 0 * (m ! 1 ! 1 * m ! 2 ! 2 - m ! 1 ! 2 * m ! 2 ! 1)
     - m ! 0 ! 1 * (m ! 1 ! 0 * m ! 2 ! 2 - m ! 1 ! 2 * m ! 2 ! 0)
     + m ! 0 ! 2 * (m ! 1 ! 0 * m ! 2 ! 1 - m ! 1 ! 1 * m ! 2 ! 0)"

definition linalg_inv :: "real list list \<Rightarrow> error + real list list" where
  "linalg_inv m =
     (let d = det3 m
      in if d = 0 then Inl LinAlgError
         else Inr
           [[(m ! 1 ! 1 * m ! 2 ! 2 - m ! 1 ! 2 * m ! 2 ! 1) / d,
             (m ! 0 ! 2 * m ! 2 ! 1 - m ! 0 ! 1 * m ! 2 ! 2) / d,
             (m ! 0 ! 1 * m ! 1 ! 2 - m ! 0 ! 2 * m ! 1 ! 1) / d],
            [(m ! 1 ! 2 * m ! 2 ! 0 - m ! 1 ! 0 * m ! 2 ! 2) / d,
             (m ! 0 ! 0 * m ! 2 ! 2 - m ! 0 ! 2 * m ! 2 ! 0) / d,
             (m ! 0 ! 2 * m ! 1 ! 0 - m ! 0 ! 0 * m ! 1 ! 2) / d],
            [(m ! 1 ! 0 * m ! 2 ! 1 - m ! 1 ! 1 * m ! 2 ! 0) / d,
             (m ! 0 ! 1 * m ! 2 ! 0 - m ! 0 ! 0 * m ! 2 ! 1) / d,
             (m ! 0 ! 0 * m ! 1 ! 1 - m ! 0 ! 1 * m ! 1 ! 0) / d]])"

text \<open>\<open>LeKiwi._wheel_raw_to_body\<close>.\<close>

definition wheel_raw_to_body ::
  "int \<Rightarrow> int \<Rightarrow> int \<Rightarrow> real \<Rightarrow> real \<Rightarrow> error + real pydict" where
  "wheel_raw_to_body left_wheel_speed back_wheel_speed right_wheel_speed wheel_radius base_radius =
     (let wheel_degps =
            [raw_to_degps left_wheel_speed, raw_to_degps back_wheel_speed,
             raw_to_degps right_wheel_speed];
          wheel_radps = map (\<lambda>d. d * (pi / 180)) wheel_degps;
          wheel_linear_speeds = map (\<lambda>w. w * wheel_radius) wheel_radps;
          m = kinematic_matrix base_radius
      in case linalg_inv m of
           Inl e \<Rightarrow> Inl e
         | Inr m_inv \<Rightarrow>
             (let velocity_vector = mat_vec m_inv wheel_linear_speeds;
                  x = velocity_vector ! 0;
                  y = velocity_vector ! 1;
                  theta_rad = velocity_vector ! 2;
                  theta = theta_rad * (180 / pi)
              in Inr [(''x.vel'', x), (''y.vel'', y), (''theta.vel'', theta)]))"

section \<open>Collaborators of the robot\<close>

text \<open>
  Modelled from the spec: the types \<open>Motor\<close>, \<open>MotorNormMode\<close> and \<open>MotorCalibration\<close> of
  \<open>lekiwi_control.motors\<close> and \<open>OperatingMode\<close> of \<open>lekiwi_control.motors.feetech\<close>, whose
  files are not among the sources: an actuator has a bus address, a model and a normalisation
  mode; a calibration record has the fields \<open>_save_calibration\<close> writes.
\<close>

datatype norm_mode = DEGREES | RANGE_M100_100 | RANGE_0_100

record motor =
  motor_id :: int
  model :: string
  norm_mode :: norm_mode

record motor_calibration =
  cal_id :: int
  drive_mode :: int
  homing_offset :: int
  range_min :: int
  range_max :: int

datatype operating_mode = POSITION | VELOCITY

text \<open>
  \<open>LeKiwiConfig\<close> (robot/config.py). \<open>max_relative_target\<close> is absent, one number, or a
  dictionary from actuator names to numbers. A camera configuration has the fields of
  \<open>CameraConfig\<close> and the two \<open>OpenCVCameraConfig\<close> arguments the default configuration passes;
  \<open>rotation\<close> is the value of the \<open>Cv2Rotation\<close> member.
\<close>

datatype max_relative = Scalar real | PerMotor "real pydict"

record camera_config =
  fps :: "int option"
  width :: "int option"
  height :: "int option"
  index_or_path :: string
  rotation :: int

record lekiwi_config =
  port :: string
  max_relative_target :: "max_relative option"
  disable_torque_on_disconnect :: bool
  use_degrees :: bool
  cameras_config :: "camera_config pydict"

definition default_config :: lekiwi_config where
  "default_config =
     \<lparr>port = ''/dev/ttyACM0'',
      max_relative_target = None,
      disable_torque_on_disconnect = True,
      use_degrees = False,
      cameras_config =
        [(''front'', \<lparr>fps = None, width = None, height = None,
                      index_or_path = ''/dev/video0'', rotation = 1\<rparr>),
         (''wrist'', \<lparr>fps = None, width = None, height = None,
                      index_or_path = ''/dev/video2'', rotation = 0\<rparr>)]\<rparr>"

text \<open>
  Modelled from the spec: the camera class \<open>OpenCVCamera\<close> (not among the sources), of which
  the robot reads \<open>is_connected\<close>; a camera is created disconnected.
  \<open>make_cameras_from_configs\<close> (cameras/utils.py) creates one per configured key.
\<close>

record camera =
  cam_config :: camera_config
  cam_connected :: bool

definition make_cameras_from_configs :: "camera_config pydict \<Rightarrow> camera pydict" where
  "make_cameras_from_configs camera_configs =
     foldl (\<lambda>cameras (key, cfg). dict_set cameras key \<lparr>cam_config = cfg, cam_connected = False\<rparr>)
       [] camera_configs"

text \<open>
  Modelled from the spec: the actuator bus \<open>FeetechMotorsBus\<close> (not among the sources), by the
  contract the specification gives for it: \<open>is_connected\<close>, \<open>disable_torque\<close>, \<open>write\<close>,
  \<open>set_half_turn_homings\<close>, \<open>record_ranges_of_motion\<close>, \<open>write_calibration\<close>, batched
  \<open>sync_read\<close> and \<open>sync_write\<close> with a retry count. The bus state holds the actuator table the
  robot constructs it with, its connection flag, the positions its actuators report, and the
  calls made on it, in order. \<open>link_ok\<close> says whether transfers succeed; a failed transfer is
  still recorded and raises the bus' own \<open>BusCommunicationFailure\<close>. What the operator-driven
  calls answer (the homing offsets, the recorded ranges) is a parameter of the call.
  A value written by \<open>sync_write\<close> is a real; the integer wheel commands are embedded.
\<close>

datatype bus_call =
    DisableTorque "string list option"
  | Write string string operating_mode
  | SetHalfTurnHomings "string list"
  | RecordRangesOfMotion "string list"
  | WriteCalibration "motor_calibration pydict"
  | SyncRead string "string list"
  | SyncWrite string "real pydict" "nat option"

record bus =
  bus_motors :: "motor pydict"
  bus_connected :: bool
  link_ok :: bool
  present_position :: "string \<Rightarrow> real"
  calls :: "bus_call list"

definition transfer :: "bus_call \<Rightarrow> 'a \<Rightarrow> bus \<Rightarrow> (error + 'a) \<times> bus" where
  "transfer c reply b =
     (if link_ok b then Inr reply else Inl BusCommunicationFailure,
      b\<lparr>calls := calls b @ [c]\<rparr>)"

definition disable_torque :: "string list option \<Rightarrow> bus \<Rightarrow> (error + unit) \<times> bus" where
  "disable_torque names b = transfer (DisableTorque names) () b"

definition write_register :: "string \<Rightarrow> string \<Rightarrow> operating_mode \<Rightarrow> bus \<Rightarrow> (error + unit) \<times> bus" where
  "write_register data_name name v b = transfer (Write data_name name v) () b"

definition set_half_turn_homings ::
  "string list \<Rightarrow> int pydict \<Rightarrow> bus \<Rightarrow> (error + int pydict) \<times> bus" where
  "set_half_turn_homings names reply b = transfer (SetHalfTurnHomings names) reply b"

definition record_ranges_of_motion ::
  "string list \<Rightarrow> int pydict \<times> int pydict \<Rightarrow> bus \<Rightarrow> (error + int pydict \<times> int pydict) \<times> bus" where
  "record_ranges_of_motion names reply b = transfer (RecordRangesOfMotion names) reply b"

definition write_calibration :: "motor_calibration pydict \<Rightarrow> bus \<Rightarrow> (error + unit) \<times> bus" where
  "write_calibration calibration b = transfer (WriteCalibration calibration) () b"

definition sync_read :: "string \<Rightarrow> string list \<Rightarrow> bus \<Rightarrow> (error + real pydict) \<times> bus" where
  "sync_read data_name names b =
     transfer (SyncRead data_name names) (map (\<lambda>n. (n, present_position b n)) names) b"

definition sync_write ::
  "string \<Rightarrow> real pydict \<Rightarrow> nat option \<Rightarrow> bus \<Rightarrow> (error + unit) \<times> bus" where
  "sync_write data_name values num_retry b = transfer (SyncWrite data_name values num_retry) () b"

section \<open>The robot (robot/lekiwi.py)\<close>

record robot =
  config :: lekiwi_config
  bus :: bus
  arm_motors :: "string list"
  base_motors :: "string list"
  cameras :: "camera pydict"

text \<open>
  Sequencing of calls that may raise: the first exception ends the sequence, with the state
  as the calls before it left it.
\<close>

definition then_do ::
  "(error + 'a) \<times> 's \<Rightarrow> ('a \<Rightarrow> 's \<Rightarrow> (error + 'b) \<times> 's) \<Rightarrow> (error + 'b) \<times> 's" where
  "then_do m f = (case m of (Inl e, s) \<Rightarrow> (Inl e, s) | (Inr a, s) \<Rightarrow> f a s)"

definition on_bus :: "(bus \<Rightarrow> (error + 'a) \<times> bus) \<Rightarrow> robot \<Rightarrow> (error + 'a) \<times> robot" where
  "on_bus f r = (case f (bus r) of (res, b) \<Rightarrow> (res, r\<lparr>bus := b\<rparr>))"

text \<open>
  \<open>LeKiwi.__init__\<close>: the actuator table, the arm and base name lists read off it, and the
  cameras. The bus hardware the robot is attached to is a parameter.
\<close>

definition lekiwi_motors :: "bool \<Rightarrow> motor pydict" where
  "lekiwi_motors degrees =
     (let norm_mode_body = (if degrees then DEGREES else RANGE_M100_100)
      in [(''arm_shoulder_pan'', \<lparr>motor_id = 1, model = ''sts3215'', norm_mode = norm_mode_body\<rparr>),
          (''arm_shoulder_lift'', \<lparr>motor_id = 2, model = ''sts3215'', norm_mode = norm_mode_body\<rparr>),
          (''arm_elbow_flex'', \<lparr>motor_id = 3, model = ''sts3215'', norm_mode = norm_mode_body\<rparr>),
          (''arm_wrist_flex'', \<lparr>motor_id = 4, model = ''sts3215'', norm_mode = norm_mode_body\<rparr>),
          (''arm_wrist_roll'', \<lparr>motor_id = 5, model = ''sts3215'', norm_mode = norm_mode_body\<rparr>),
          (''arm_gripper'', \<lparr>motor_id = 6, model = ''sts3215'', norm_mode = RANGE_0_100\<rparr>),
          (''base_left_wheel'', \<lparr>motor_id = 7, model = ''sts3215'', norm_mode = RANGE_M100_100\<rparr>),
          (''base_back_wheel'', \<lparr>motor_id = 8, model = ''sts3215'', norm_mode = RANGE_M100_100\<rparr>),
          (''base_right_wheel'', \<lparr>motor_id = 9, model = ''sts3215'', norm_mode = RANGE_M100_100\<rparr>)])"

definition init :: "lekiwi_config \<Rightarrow> bus \<Rightarrow> robot" where
  "init cfg hardware =
     (let b = hardware\<lparr>bus_motors := lekiwi_motors (use_degrees cfg)\<rparr>
      in \<lparr>config = cfg,
          bus = b,
          arm_motors = filter (\<lambda>m. startswith m ''arm'') (map fst (bus_motors b)),
          base_motors = filter (\<lambda>m. startswith m ''base'') (map fst (bus_motors b)),
          cameras = make_cameras_from_configs (cameras_config cfg)\<rparr>)"

text \<open>
  What \<open>__init__\<close> establishes and no method changes: the actuator table and the two name
  lists. Connection state, readings, cameras and the call history are arbitrary.
\<close>

definition wired :: "robot \<Rightarrow> bool" where
  "wired r =
     (bus_motors (bus r) = lekiwi_motors (use_degrees (config r))
      \<and> arm_motors r = filter (\<lambda>m. startswith m ''arm'') (map fst (bus_motors (bus r)))
      \<and> base_motors r = filter (\<lambda>m. startswith m ''base'') (map fst (bus_motors (bus r))))"

text \<open>
  A robot in the state a successful \<open>connect\<close> leaves: bus and every camera connected, no
  call recorded yet. It is the concrete state of the instances below.
\<close>

definition connected_lekiwi :: "lekiwi_config \<Rightarrow> (string \<Rightarrow> real) \<Rightarrow> robot" where
  "connected_lekiwi cfg pos =
     (let r = init cfg \<lparr>bus_motors = [], bus_connected = True, link_ok = True,
                         present_position = pos, calls = []\<rparr>
      in r\<lparr>cameras := map (\<lambda>(k, c). (k, c\<lparr>cam_connected := True\<rparr>)) (cameras r)\<rparr>)"

text \<open>\<open>LeKiwi.is_connected\<close>.\<close>

definition is_connected :: "robot \<Rightarrow> bool" where
  "is_connected r = (bus_connected (bus r) \<and> list_all cam_connected (map snd (cameras r)))"

text \<open>
  \<open>LeKiwi.calibrate\<close>. The two operator-driven bus calls answer \<open>homing_reply\<close> and
  \<open>ranges_reply\<close>. The function returns the record set it hands to \<open>bus.write_calibration\<close> and
  \<open>_save_calibration\<close>. \<open>build_calibration\<close> is the loop over \<open>bus.motors.items()\<close>, where a
  name missing from one of the three dictionaries raises \<open>KeyError\<close>; \<open>write_each\<close> is the loop
  of \<open>bus.write\<close> calls over the arm actuators.
\<close>

fun build_calibration ::
  "motor pydict \<Rightarrow> int pydict \<Rightarrow> int pydict \<Rightarrow> int pydict \<Rightarrow> motor_calibration pydict
    \<Rightarrow> error + motor_calibration pydict" where
  "build_calibration [] homing_offsets range_mins range_maxes calibration = Inr calibration"
| "build_calibration ((name, m) # ms) homing_offsets range_mins range_maxes calibration =
     (case dict_get homing_offsets name of
        Inl e \<Rightarrow> Inl e
      | Inr ho \<Rightarrow>
          (case dict_get range_mins name of
             Inl e \<Rightarrow> Inl e
           | Inr lo \<Rightarrow>
               (case dict_get range_maxes name of
                  Inl e \<Rightarrow> Inl e
                | Inr hi \<Rightarrow>
                    build_calibration ms homing_offsets range_mins range_maxes
                      (dict_set calibration name
                         \<lparr>cal_id = motor_id m, drive_mode = 0, homing_offset = ho,
                          range_min = lo, range_max = hi\<rparr>))))"

fun write_each ::
  "string \<Rightarrow> string list \<Rightarrow> operating_mode \<Rightarrow> robot \<Rightarrow> (error + unit) \<times> robot" where
  "write_each data_name [] v r = (Inr (), r)"
| "write_each data_name (name # names) v r =
     then_do (on_bus (write_register data_name name v) r) (\<lambda>_ r'. write_each data_name names v r')"

definition calibrate ::
  "robot \<Rightarrow> int pydict \<Rightarrow> int pydict \<times> int pydict
    \<Rightarrow> (error + motor_calibration pydict) \<times> robot" where
  "calibrate r homing_reply ranges_reply =
     (let motors = arm_motors r @ base_motors r
      in then_do (on_bus (disable_torque (Some (arm_motors r))) r) (\<lambda>_ r1.
         then_do (write_each ''Operating_Mode'' (arm_motors r) POSITION r1) (\<lambda>_ r2.
         then_do (on_bus (set_half_turn_homings (arm_motors r) homing_reply) r2) (\<lambda>homing_offsets r3.
           (let homing_offsets = dict_update homing_offsets (fromkeys (base_motors r) 0);
                full_turn_motor =
                  filter (\<lambda>m. list_ex (\<lambda>keyword. str_in keyword m) [''wheel'', ''wrist_roll''])
                    motors;
                unknown_range_motors = filter (\<lambda>m. m \<notin> set full_turn_motor) motors
            in then_do (on_bus (record_ranges_of_motion unknown_range_motors ranges_reply) r3)
                 (\<lambda>(range_mins, range_maxes) r4.
                   (let range_mins = foldl (\<lambda>d name. dict_set d name 0) range_mins full_turn_motor;
                        range_maxes =
                          foldl (\<lambda>d name. dict_set d name 4095) range_maxes full_turn_motor
                    in case build_calibration (bus_motors (bus r4)) homing_offsets range_mins
                              range_maxes [] of
                         Inl e \<Rightarrow> (Inl e, r4)
                       | Inr calibration \<Rightarrow>
                           then_do (on_bus (write_calibration calibration) r4)
                             (\<lambda>_ r5. (Inr calibration, r5)))))))))"

text \<open>
  \<open>LeKiwi.send_action\<close>. \<open>clamp_goals\<close> is the loop of the safety cap over
  \<open>arm_goal_pos.items()\<close>: the limit of an actuator is the scalar, or the dictionary's entry,
  \<open>float("inf")\<close> when it has none, and nothing exceeds infinity (\<open>None\<close> in the model). The
  transform is called with its default wheel radius, base radius and cap. \<open>sync_write\<close> is
  called without a retry count.
\<close>

fun clamp_goals ::
  "max_relative \<Rightarrow> real pydict \<Rightarrow> real pydict \<Rightarrow> real pydict \<Rightarrow> error + real pydict" where
  "clamp_goals mrt present_pos [] arm_goal_pos = Inr arm_goal_pos"
| "clamp_goals mrt present_pos ((key, g_pos) # items) arm_goal_pos =
     (let motor_name = str_remove ''.pos'' key
      in case dict_get present_pos motor_name of
           Inl e \<Rightarrow> Inl e
         | Inr p_pos \<Rightarrow>
             (let max_rel =
                    (case mrt of
                       Scalar m \<Rightarrow> Some m
                     | PerMotor d \<Rightarrow> map_of d motor_name)
              in case max_rel of
                   None \<Rightarrow> clamp_goals mrt present_pos items arm_goal_pos
                 | Some m \<Rightarrow>
                     if \<bar>g_pos - p_pos\<bar> > m
                     then clamp_goals mrt present_pos items
                            (dict_set arm_goal_pos key (p_pos + sgn (g_pos - p_pos) * m))
                     else clamp_goals mrt present_pos items arm_goal_pos))"

definition send_action :: "robot \<Rightarrow> real pydict \<Rightarrow> (error + real pydict) \<times> robot" where
  "send_action r action =
     (if \<not> is_connected r then (Inl DeviceNotConnectedError, r)
      else
        (let arm_goal_pos = filter (\<lambda>(k, v). endswith k ''.pos'') action;
             base_goal_vel = filter (\<lambda>(k, v). endswith k ''.vel'') action
         in case dict_get base_goal_vel ''x.vel'' of
              Inl e \<Rightarrow> (Inl e, r)
            | Inr x \<Rightarrow>
           (case dict_get base_goal_vel ''y.vel'' of
              Inl e \<Rightarrow> (Inl e, r)
            | Inr y \<Rightarrow>
           (case dict_get base_goal_vel ''theta.vel'' of
              Inl e \<Rightarrow> (Inl e, r)
            | Inr theta \<Rightarrow>
           (case body_to_wheel_raw x y theta (1 / 20) (1 / 8) 3000 of
              Inl e \<Rightarrow> (Inl e, r)
            | Inr base_wheel_goal_vel \<Rightarrow>
                then_do
                  (case max_relative_target (config r) of
                     None \<Rightarrow> (Inr arm_goal_pos, r)
                   | Some mrt \<Rightarrow>
                       then_do (on_bus (sync_read ''Present_Position'' (arm_motors r)) r)
                         (\<lambda>present_pos r1.
                            (clamp_goals mrt present_pos arm_goal_pos arm_goal_pos, r1)))
                  (\<lambda>arm_goal_pos r2.
                     (let arm_goal_pos_raw =
                            dict_update []
                              (map (\<lambda>(k, v). (str_remove ''.pos'' k, v)) arm_goal_pos)
                      in then_do (on_bus (sync_write ''Goal_Position'' arm_goal_pos_raw None) r2)
                           (\<lambda>_ r3.
                              then_do
                                (on_bus
                                   (sync_write ''Goal_Velocity''
                                      (map (\<lambda>(k, v). (k, real_of_int v)) base_wheel_goal_vel)
                                      None)
                                   r3)
                                (\<lambda>_ r4.
                                   (Inr (dict_update arm_goal_pos base_goal_vel), r4))))))))))"

text \<open>\<open>LeKiwi.stop_base\<close>.\<close>

definition stop_base :: "robot \<Rightarrow> (error + unit) \<times> robot" where
  "stop_base r =
     on_bus (sync_write ''Goal_Velocity'' (fromkeys (base_motors r) 0) (Some 5)) r"

section \<open>The register codec round trip\<close>

lemma not_bit_top: "0 \<le> (m::int) \<Longrightarrow> m < 2 ^ n \<Longrightarrow> \<not> bit m n"
  by (metis bit_take_bit_iff take_bit_int_eq_self less_irrefl)

lemma and_pow_zero: "0 \<le> (m::int) \<Longrightarrow> m < 2 ^ n \<Longrightarrow> m AND 2 ^ n = 0"
  by (rule bit_eqI) (auto simp: bit_and_iff bit_exp_iff not_bit_top)

lemma and_mask_self: "0 \<le> (m::int) \<Longrightarrow> m < 2 ^ n \<Longrightarrow> m AND (2 ^ n - 1) = m"
  by (metis mask_eq_exp_minus_1 take_bit_eq_mask take_bit_int_eq_self)

lemma or_pow_and_pow: "(m OR 2 ^ n) AND 2 ^ n = (2 ^ n :: int)"
  by (rule bit_eqI) (auto simp: bit_and_iff bit_or_iff bit_exp_iff)

lemma pow_and_mask: "(2 ^ n :: int) AND (2 ^ n - 1) = 0"
  by (rule bit_eqI) (auto simp: bit_and_iff bit_exp_iff bit_mask_iff simp flip: mask_eq_exp_minus_1)

lemma or_pow_and_mask: "0 \<le> (m::int) \<Longrightarrow> m < 2 ^ n \<Longrightarrow> (m OR 2 ^ n) AND (2 ^ n - 1) = m"
  by (simp add: bit.conj_disj_distrib2 and_mask_self pow_and_mask)

text \<open>
  Claim C1. For every integer \<open>v\<close> and every sign-bit position \<open>b \<ge> 0\<close> with \<open>|v| < 2^b\<close>,
  encoding \<open>v\<close> succeeds and decoding the encoded register value gives \<open>v\<close> back.
\<close>

theorem codec_round_trip:
  assumes "0 \<le> b" and "\<bar>v\<bar> < 2 ^ nat b"
  shows "\<exists>e. encode_sign_magnitude v b = Inr e \<and> decode_sign_magnitude e b = Inr v"
proof (cases "v < 0")
  case True
  have m: "0 \<le> \<bar>v\<bar>" by simp
  have neg: "(\<bar>v\<bar> OR 2 ^ nat b) AND 2 ^ nat b \<noteq> (0::int)"
    by (simp add: or_pow_and_pow)
  have mag: "(\<bar>v\<bar> OR 2 ^ nat b) AND (2 ^ nat b - 1) = \<bar>v\<bar>"
    using or_pow_and_mask [OF m assms(2)] .
  from True assms(1) neg mag show ?thesis
    by (simp add: encode_sign_magnitude_def decode_sign_magnitude_def Let_def)
next
  case False
  then have nn: "0 \<le> v" by simp
  with assms(2) have lt: "v < 2 ^ nat b" by simp
  from False assms(1) and_pow_zero [OF nn lt] and_mask_self [OF nn lt] show ?thesis
    by (simp add: encode_sign_magnitude_def decode_sign_magnitude_def Let_def)
qed

theorem codec_round_trip_witness:
  "(0::int) \<le> 15 \<and> \<bar>- 100 :: int\<bar> < 2 ^ nat 15 \<and>
   encode_sign_magnitude (- 100) 15 = Inr 32868 \<and> decode_sign_magnitude 32868 15 = Inr (- 100)"
proof -
  have a: "(0::int) \<le> 15" by simp
  have b: "\<bar>- 100 :: int\<bar> < 2 ^ nat 15" by simp
  have e: "encode_sign_magnitude (- 100) 15 = Inr 32868"
    by (simp add: encode_sign_magnitude_def)
  from codec_round_trip [OF a b] e show ?thesis by auto
qed

section \<open>Bounds on \<open>pi\<close> and \<open>sqrt 3\<close>\<close>

text \<open>
  Machin's formula and the alternating series of the arctangent bound \<open>pi\<close> to four digits;
  the numeric claims about the transform need that much.
\<close>

lemma arctan_series_decreasing:
  fixes x :: real
  assumes "0 \<le> x" "x \<le> 1"
  shows "1 / real (Suc n * 2 + 1) * x ^ (Suc n * 2 + 1) \<le> 1 / real (n * 2 + 1) * x ^ (n * 2 + 1)"
proof -
  have p: "x ^ (Suc n * 2 + 1) \<le> x ^ (n * 2 + 1)"
    using assms by (intro power_decreasing) auto
  have q: "1 / real (Suc n * 2 + 1) \<le> 1 / real (n * 2 + 1)"
    by (simp add: field_simps)
  have "1 / real (Suc n * 2 + 1) * x ^ (Suc n * 2 + 1) \<le> 1 / real (n * 2 + 1) * x ^ (Suc n * 2 + 1)"
    using q assms by (intro mult_right_mono) auto
  also have "\<dots> \<le> 1 / real (n * 2 + 1) * x ^ (n * 2 + 1)"
    using p by (intro mult_left_mono) auto
  finally show ?thesis .
qed

lemma arctan_partial_sums:
  fixes x :: real
  assumes "0 \<le> x" "x \<le> 1"
  shows "(\<Sum>i<2 * n. (- 1) ^ i * (1 / real (i * 2 + 1) * x ^ (i * 2 + 1))) \<le> arctan x"
    and "arctan x \<le> (\<Sum>i<2 * n + 1. (- 1) ^ i * (1 / real (i * 2 + 1) * x ^ (i * 2 + 1)))"
proof -
  have ax: "\<bar>x\<bar> \<le> 1" using assms by simp
  have z: "(\<lambda>n. 1 / real (n * 2 + 1) * x ^ (n * 2 + 1)) \<longlonglongrightarrow> 0"
    by (rule zeroseq_arctan_series [OF ax])
  have pos: "\<And>n. 0 \<le> 1 / real (n * 2 + 1) * x ^ (n * 2 + 1)"
    using assms by simp
  have mono: "\<And>n. 1 / real (Suc n * 2 + 1) * x ^ (Suc n * 2 + 1) \<le> 1 / real (n * 2 + 1) * x ^ (n * 2 + 1)"
    by (rule arctan_series_decreasing [OF assms])
  note L = summable_Leibniz' [OF z pos mono]
  show "(\<Sum>i<2 * n. (- 1) ^ i * (1 / real (i * 2 + 1) * x ^ (i * 2 + 1))) \<le> arctan x"
    using L(2) [of n] arctan_series [OF ax] by simp
  show "arctan x \<le> (\<Sum>i<2 * n + 1. (- 1) ^ i * (1 / real (i * 2 + 1) * x ^ (i * 2 + 1)))"
    using L(4) [of n] arctan_series [OF ax] by simp
qed

lemma arctan_fifth_lower: "(1973955 / 10000000 :: real) \<le> arctan (1 / 5)"
proof -
  have "(\<Sum>i<2 * 2. (- 1) ^ i * (1 / real (i * 2 + 1) * (1 / 5) ^ (i * 2 + 1))) \<le> arctan (1 / 5 :: real)"
    by (rule arctan_partial_sums(1)) simp_all
  then show ?thesis
    by (simp add: lessThan_nat_numeral lessThan_Suc power_divide)
qed

lemma arctan_fifth_upper: "arctan (1 / 5) \<le> (1973974 / 10000000 :: real)"
proof -
  have "arctan (1 / 5 :: real) \<le> (\<Sum>i<2 * 1 + 1. (- 1) ^ i * (1 / real (i * 2 + 1) * (1 / 5) ^ (i * 2 + 1)))"
    by (rule arctan_partial_sums(2)) simp_all
  then show ?thesis
    by (simp add: lessThan_nat_numeral lessThan_Suc power_divide)
qed

lemma arctan_239_lower: "(41840 / 10000000 :: real) \<le> arctan (1 / 239)"
proof -
  have "(\<Sum>i<2 * 1. (- 1) ^ i * (1 / real (i * 2 + 1) * (1 / 239) ^ (i * 2 + 1))) \<le> arctan (1 / 239 :: real)"
    by (rule arctan_partial_sums(1)) simp_all
  then show ?thesis
    by (simp add: lessThan_nat_numeral lessThan_Suc power_divide)
qed

lemma arctan_239_upper: "arctan (1 / 239) \<le> (41842 / 10000000 :: real)"
proof -
  have "arctan (1 / 239 :: real) \<le> (\<Sum>i<2 * 0 + 1. (- 1) ^ i * (1 / real (i * 2 + 1) * (1 / 239) ^ (i * 2 + 1)))"
    by (rule arctan_partial_sums(2)) simp_all
  then show ?thesis
    by (simp add: lessThan_nat_numeral lessThan_Suc power_divide)
qed

lemma pi_lower: "(31415 / 10000 :: real) < pi"
  using machin arctan_fifth_lower arctan_239_upper by simp

lemma pi_upper: "pi < (31417 / 10000 :: real)"
  using machin arctan_fifth_upper arctan_239_lower by simp

lemma sqrt3_lower: "(173205 / 100000 :: real) < sqrt 3"
  by (rule real_less_rsqrt) (simp add: power2_eq_square)

lemma sqrt3_upper: "sqrt 3 < (173206 / 100000 :: real)"
  by (rule real_less_lsqrt) (simp_all add: power2_eq_square)

section \<open>The kinematic matrix in closed form\<close>

lemma cos_150: "cos (150 * (pi / 180)) = - (sqrt 3 / 2)"
proof -
  have "150 * (pi / 180) = pi - pi / 6" by simp
  then show ?thesis by (simp only: cos_pi_minus cos_30)
qed

lemma sin_150: "sin (150 * (pi / 180)) = 1 / 2"
proof -
  have "150 * (pi / 180) = pi - pi / 6" by simp
  then show ?thesis by (simp only: sin_pi_minus sin_30)
qed

lemma cos_m90: "cos (- 90 * (pi / 180)) = 0"
proof -
  have "- 90 * (pi / 180) = - (pi / 2)" by simp
  then show ?thesis by (simp only: cos_minus cos_pi_half)
qed

lemma sin_m90: "sin (- 90 * (pi / 180)) = - 1"
proof -
  have "- 90 * (pi / 180) = - (pi / 2)" by simp
  then show ?thesis by (simp only: sin_minus sin_pi_half)
qed

lemma cos_30': "cos (30 * (pi / 180)) = sqrt 3 / 2"
proof -
  have "30 * (pi / 180) = pi / 6" by simp
  then show ?thesis by (simp only: cos_30)
qed

lemma sin_30': "sin (30 * (pi / 180)) = 1 / 2"
proof -
  have "30 * (pi / 180) = pi / 6" by simp
  then show ?thesis by (simp only: sin_30)
qed

lemma kinematic_matrix_explicit:
  "kinematic_matrix b = [[- (sqrt 3 / 2), 1 / 2, b], [0, - 1, b], [sqrt 3 / 2, 1 / 2, b]]"
proof -
  have a: "(240 - 90 :: real) = 150" "(0 - 90 :: real) = - 90" "(120 - 90 :: real) = 30" by simp_all
  show ?thesis
    unfolding kinematic_matrix_def Let_def radians_def list.map a
    by (simp only: cos_150 sin_150 cos_m90 sin_m90 cos_30' sin_30')
qed

lemma wheel_linear_explicit:
  "wheel_linear_speeds x y theta b =
     [- (sqrt 3 / 2) * x + 1 / 2 * y + b * (theta * (pi / 180)),
      - y + b * (theta * (pi / 180)),
      sqrt 3 / 2 * x + 1 / 2 * y + b * (theta * (pi / 180))]"
  by (simp add: wheel_linear_speeds_def kinematic_matrix_explicit mat_vec_def dot_def)

lemma wheel_degps_explicit:
  "wheel_degps x y theta r b =
     [(- (sqrt 3 / 2) * x + 1 / 2 * y + b * (theta * (pi / 180))) / r * (180 / pi),
      (- y + b * (theta * (pi / 180))) / r * (180 / pi),
      (sqrt 3 / 2 * x + 1 / 2 * y + b * (theta * (pi / 180))) / r * (180 / pi)]"
  by (simp add: wheel_degps_def wheel_linear_explicit)

section \<open>Uniform scaling\<close>

lemma max_raw_computed_3:
  "max_raw_computed [d0, d1, d2] =
     max (max (\<bar>d0\<bar> * (4096 / 360)) (\<bar>d1\<bar> * (4096 / 360))) (\<bar>d2\<bar> * (4096 / 360))"
  by (simp add: max_raw_computed_def)






section \<open>Rounding to raw ticks\<close>

lemma py_round_near:
  assumes "of_int n - 1 / 2 < x" and "x < of_int n + 1 / 2"
  shows "py_round x = n"
proof -
  have "\<lfloor>x\<rfloor> = n \<or> \<lfloor>x\<rfloor> = n - 1"
    using assms by linarith
  then show ?thesis
  proof
    assume f: "\<lfloor>x\<rfloor> = n"
    with assms show ?thesis by (simp add: py_round_def Let_def)
  next
    assume f: "\<lfloor>x\<rfloor> = n - 1"
    with assms show ?thesis by (simp add: py_round_def Let_def)
  qed
qed

lemma degps_to_raw_near:
  assumes "of_int n - 1 / 2 < d * (4096 / 360)" and "d * (4096 / 360) < of_int n + 1 / 2"
    and "- 32768 \<le> n" and "n \<le> 32767"
  shows "degps_to_raw d = n"
  using py_round_near [OF assms(1,2)] assms(3,4) by (simp add: degps_to_raw_def Let_def)

section \<open>The forward scenario\<close>

lemma scenario_degps:
  "wheel_degps (1 / 10) 0 0 (1 / 20) (1 / 8) = [- (sqrt 3 * 180 / pi), 0, sqrt 3 * 180 / pi]"
  by (simp add: wheel_degps_explicit)

lemma scenario_linear:
  "wheel_linear_speeds (1 / 10) 0 0 (1 / 8) = [- (sqrt 3 / 20), 0, sqrt 3 / 20]"
  by (simp add: wheel_linear_explicit)

lemma scenario_degps_bounds:
  "9923 / 100 < sqrt 3 * 180 / pi" "sqrt 3 * 180 / pi < 9925 / 100"
  using pi_lower pi_upper sqrt3_lower sqrt3_upper pi_gt_zero
  by (simp_all add: pos_less_divide_eq pos_divide_less_eq)

lemma scenario_raw_bounds:
  "1129 - 1 / 2 < sqrt 3 * 180 / pi * (4096 / 360)"
  "sqrt 3 * 180 / pi * (4096 / 360) < 1129 + 1 / 2"
  using pi_lower pi_upper sqrt3_lower sqrt3_upper pi_gt_zero
  by (simp_all add: pos_less_divide_eq pos_divide_less_eq)

lemma degps_to_raw_zero: "degps_to_raw 0 = 0"
  by (simp add: degps_to_raw_def py_round_def)

lemma scenario_raw_right: "degps_to_raw (sqrt 3 * 180 / pi) = 1129"
  by (rule degps_to_raw_near) (use scenario_raw_bounds in simp_all)

lemma scenario_raw_left: "degps_to_raw (- (sqrt 3 * 180 / pi)) = - 1129"
  by (rule degps_to_raw_near) (use scenario_raw_bounds in simp_all)

lemma scenario_max: "max_raw_computed [- (sqrt 3 * 180 / pi), 0, sqrt 3 * 180 / pi] < 3000"
  using scenario_raw_bounds by (simp add: max_raw_computed_3)

text \<open>
  Claim C9. For \<open>x = 0.1\<close>, \<open>y = 0\<close>, \<open>theta = 0\<close>, wheel radius 0.05, base radius 0.125 and
  cap 3000: the linear wheel speeds are \<open>-0.0866\<close>, 0 and 0.0866 m/s and the wheel speeds
  \<open>-99.3\<close>, 0 and 99.3 degrees per second, each to within one part in a thousand; the largest
  raw magnitude is under the cap, so nothing is scaled; and the raw commands are \<open>-1129\<close>, 0
  and 1129, which is 1130 to within one part in a thousand.
\<close>

theorem forward_scenario:
  "\<bar>wheel_linear_speeds (1 / 10) 0 0 (1 / 8) ! 0 - (- 0.0866)\<bar> \<le> 0.0866 / 1000
   \<and> wheel_linear_speeds (1 / 10) 0 0 (1 / 8) ! 1 = 0
   \<and> \<bar>wheel_linear_speeds (1 / 10) 0 0 (1 / 8) ! 2 - 0.0866\<bar> \<le> 0.0866 / 1000
   \<and> \<bar>wheel_degps (1 / 10) 0 0 (1 / 20) (1 / 8) ! 0 - (- 99.3)\<bar> \<le> 99.3 / 1000
   \<and> wheel_degps (1 / 10) 0 0 (1 / 20) (1 / 8) ! 1 = 0
   \<and> \<bar>wheel_degps (1 / 10) 0 0 (1 / 20) (1 / 8) ! 2 - 99.3\<bar> \<le> 99.3 / 1000
   \<and> max_raw_computed (wheel_degps (1 / 10) 0 0 (1 / 20) (1 / 8)) < 3000
   \<and> body_to_wheel_raw (1 / 10) 0 0 (1 / 20) (1 / 8) 3000
       = Inr [(''base_left_wheel'', - 1129), (''base_back_wheel'', 0), (''base_right_wheel'', 1129)]
   \<and> \<bar>real_of_int (- 1129) - (- 1130)\<bar> \<le> 1130 / 1000"
proof -
  have lin: "\<bar>sqrt 3 / 20 - 0.0866\<bar> \<le> 0.0866 / 1000"
    "\<bar>- (sqrt 3 / 20) - (- 0.0866)\<bar> \<le> 0.0866 / 1000"
    using sqrt3_lower sqrt3_upper by (simp_all add: abs_le_iff)
  have deg: "\<bar>sqrt 3 * 180 / pi - 99.3\<bar> \<le> 99.3 / 1000"
    "\<bar>- (sqrt 3 * 180 / pi) - (- 99.3)\<bar> \<le> 99.3 / 1000"
    using scenario_degps_bounds by (simp_all add: abs_le_iff)
  have body: "body_to_wheel_raw (1 / 10) 0 0 (1 / 20) (1 / 8) 3000
       = Inr [(''base_left_wheel'', - 1129), (''base_back_wheel'', 0), (''base_right_wheel'', 1129)]"
    using scenario_max
    by (simp add: body_to_wheel_raw_def scenario_degps scale_wheel_degps_def
        scenario_raw_left scenario_raw_right degps_to_raw_zero)
  have idx: "[a, b, c] ! 0 = a" "[a, b, c] ! 1 = b" "[a, b, c] ! 2 = c" for a b c :: real
    by simp_all
  have last: "\<bar>real_of_int (- 1129) - (- 1130)\<bar> \<le> 1130 / 1000" by simp
  show ?thesis
    unfolding scenario_linear scenario_degps idx
    by (intro conjI lin deg scenario_max body last refl)
qed

section \<open>The kinematics round trip\<close>

lemma sqrt3_sq: "sqrt 3 * sqrt 3 = 3"
  by simp

lemma det3_default: "det3 (kinematic_matrix (1 / 8)) = 3 * sqrt 3 / 16"
  by (simp add: det3_def kinematic_matrix_explicit)

lemma linalg_inv_default:
  "linalg_inv (kinematic_matrix (1 / 8))
     = Inr [[- (1 / sqrt 3), 0, 1 / sqrt 3], [1 / 3, - (2 / 3), 1 / 3], [8 / 3, 8 / 3, 8 / 3]]"
proof -
  have nz: "3 * sqrt 3 / 16 \<noteq> 0" by simp
  show ?thesis
    unfolding linalg_inv_def det3_default Let_def
    by (simp add: kinematic_matrix_explicit field_simps)
qed


lemma wheel_raw_to_body_default:
  "wheel_raw_to_body l k r (1 / 20) (1 / 8)
     = Inr [(''x.vel'', (of_int r - of_int l) * (pi / 40960) / sqrt 3),
            (''y.vel'', (of_int l - 2 * of_int k + of_int r) * (pi / 40960) / 3),
            (''theta.vel'', (of_int l + of_int k + of_int r) * (3 / 256))]"
  by (simp add: wheel_raw_to_body_def linalg_inv_default raw_to_degps_def mat_vec_def dot_def
      field_simps)

lemma py_round_error: "\<bar>of_int (py_round x) - x\<bar> \<le> 1 / 2"
proof -
  have "of_int \<lfloor>x\<rfloor> \<le> x" "x < of_int \<lfloor>x\<rfloor> + 1" by linarith+
  then show ?thesis
    by (auto simp: py_round_def Let_def abs_le_iff)
qed

lemma py_round_range:
  assumes "\<bar>x\<bar> \<le> of_int n"
  shows "- n \<le> py_round x" "py_round x \<le> n"
proof -
  from assms have lo: "- of_int n \<le> x" and hi: "x \<le> of_int n" by (simp_all add: abs_le_iff)
  have f: "of_int \<lfloor>x\<rfloor> \<le> x" "x < of_int \<lfloor>x\<rfloor> + 1" by linarith+
  from lo have fl: "- n \<le> \<lfloor>x\<rfloor>" by (simp add: le_floor_iff)
  then show "- n \<le> py_round x"
    by (simp add: py_round_def Let_def)
  show "py_round x \<le> n"
  proof (cases "\<lfloor>x\<rfloor> < n")
    case True
    then show ?thesis by (simp add: py_round_def Let_def)
  next
    case False
    with hi f have "of_int \<lfloor>x\<rfloor> = x" "\<lfloor>x\<rfloor> = n"
      by (smt (verit) floor_le_iff of_int_floor_le le_floor_iff floor_of_int)+
    then show ?thesis by (simp add: py_round_def Let_def)
  qed
qed

lemma degps_to_raw_error:
  assumes "\<bar>d\<bar> * (4096 / 360) \<le> 3000"
  shows "\<bar>of_int (degps_to_raw d) - d * (4096 / 360)\<bar> \<le> 1 / 2"
proof -
  have a: "\<bar>d * (4096 / 360)\<bar> \<le> of_int 3000"
    using assms by (simp add: abs_mult)
  from py_round_range [OF a]
  have "degps_to_raw d = py_round (d * (4096 / 360))"
    by (simp add: degps_to_raw_def Let_def)
  then show ?thesis
    using py_round_error [of "d * (4096 / 360)"] by simp
qed

lemma wheel_degps_default:
  "wheel_degps x y theta (1 / 20) (1 / 8) =
     [(- (sqrt 3 / 2) * x + 1 / 2 * y) * 3600 / pi + theta * (5 / 2),
      - y * 3600 / pi + theta * (5 / 2),
      (sqrt 3 / 2 * x + 1 / 2 * y) * 3600 / pi + theta * (5 / 2)]"
  by (simp add: wheel_degps_explicit field_simps)

lemma max_raw_computed_le:
  "max_raw_computed [d0, d1, d2] \<le> c \<longleftrightarrow>
     \<bar>d0\<bar> * (4096 / 360) \<le> c \<and> \<bar>d1\<bar> * (4096 / 360) \<le> c \<and> \<bar>d2\<bar> * (4096 / 360) \<le> c"
  unfolding max_raw_computed_3 by (simp only: max.bounded_iff conj_assoc)

lemma body_to_wheel_raw_unsaturated:
  assumes "wheel_degps x y theta (1 / 20) (1 / 8) = [d0, d1, d2]"
    and "max_raw_computed [d0, d1, d2] \<le> 3000"
  shows "body_to_wheel_raw x y theta (1 / 20) (1 / 8) 3000
           = Inr [(''base_left_wheel'', degps_to_raw d0),
                  (''base_back_wheel'', degps_to_raw d1),
                  (''base_right_wheel'', degps_to_raw d2)]"
  using assms(2) by (simp add: body_to_wheel_raw_def assms(1) scale_wheel_degps_def Let_def)

lemma tick_small: "pi / 40960 / sqrt 3 \<le> 1 / 1000" "pi / 40960 \<le> 1 / 1000"
proof -
  have "1 \<le> sqrt 3" by simp
  then have "pi / 40960 / sqrt 3 \<le> pi / 40960 / 1"
    by (intro divide_left_mono) simp_all
  also have "\<dots> \<le> 1 / 1000" using pi_less_4 by simp
  finally show "pi / 40960 / sqrt 3 \<le> 1 / 1000" .
  show "pi / 40960 \<le> 1 / 1000" using pi_less_4 by simp
qed

text \<open>
  Claim C4, amended. For every body velocity whose raw wheel magnitudes stay at or under the
  cap (default geometry, cap 3000), the forward transform succeeds, the inverse transform of
  its raw commands succeeds, and the velocity read back is within \<open>1e-3\<close> m/s of the request
  in \<open>x\<close> and \<open>y\<close> and within \<open>9/512\<close> degrees per second (half a raw tick on each wheel)
  in \<open>theta\<close>.
\<close>

theorem round_trip_quantised:
  assumes "max_raw_computed (wheel_degps x y theta (1 / 20) (1 / 8)) \<le> 3000"
  shows "\<exists>l k r x' y' theta'.
      body_to_wheel_raw x y theta (1 / 20) (1 / 8) 3000
        = Inr [(''base_left_wheel'', l), (''base_back_wheel'', k), (''base_right_wheel'', r)]
    \<and> wheel_raw_to_body l k r (1 / 20) (1 / 8)
        = Inr [(''x.vel'', x'), (''y.vel'', y'), (''theta.vel'', theta')]
    \<and> \<bar>x' - x\<bar> \<le> 1 / 1000 \<and> \<bar>y' - y\<bar> \<le> 1 / 1000 \<and> \<bar>theta' - theta\<bar> \<le> 9 / 512"
proof -
  define d0 where "d0 = (- (sqrt 3 / 2) * x + 1 / 2 * y) * 3600 / pi + theta * (5 / 2)"
  define d1 where "d1 = - y * 3600 / pi + theta * (5 / 2)"
  define d2 where "d2 = (sqrt 3 / 2 * x + 1 / 2 * y) * 3600 / pi + theta * (5 / 2)"
  have D: "wheel_degps x y theta (1 / 20) (1 / 8) = [d0, d1, d2]"
    by (simp only: wheel_degps_default d0_def d1_def d2_def)
  from assms have m: "max_raw_computed [d0, d1, d2] \<le> 3000" by (simp only: D)
  define e0 where "e0 = of_int (degps_to_raw d0) - d0 * (4096 / 360)"
  define e1 where "e1 = of_int (degps_to_raw d1) - d1 * (4096 / 360)"
  define e2 where "e2 = of_int (degps_to_raw d2) - d2 * (4096 / 360)"
  from m have b0: "\<bar>e0\<bar> \<le> 1 / 2" and b1: "\<bar>e1\<bar> \<le> 1 / 2" and b2: "\<bar>e2\<bar> \<le> 1 / 2"
    unfolding e0_def e1_def e2_def max_raw_computed_le
    by (simp_all only: degps_to_raw_error)
  have r0: "of_int (degps_to_raw d0) = d0 * (4096 / 360) + e0"
    and r1: "of_int (degps_to_raw d1) = d1 * (4096 / 360) + e1"
    and r2: "of_int (degps_to_raw d2) = d2 * (4096 / 360) + e2"
    by (simp_all add: e0_def e1_def e2_def)
  have xe: "(of_int (degps_to_raw d2) - of_int (degps_to_raw d0)) * (pi / 40960) / sqrt 3 - x
              = (e2 - e0) * (pi / 40960 / sqrt 3)"
  proof -
    have "(d2 * (4096 / 360) + e2 - (d0 * (4096 / 360) + e0)) * (pi / 40960) / sqrt 3 - x
              = (e2 - e0) * (pi / 40960 / sqrt 3)"
      unfolding d0_def d2_def by (simp add: field_simps)
    then show ?thesis by (simp only: r0 r2)
  qed
  have ye: "(of_int (degps_to_raw d0) - 2 * of_int (degps_to_raw d1) + of_int (degps_to_raw d2))
              * (pi / 40960) / 3 - y
              = (e0 - 2 * e1 + e2) / 3 * (pi / 40960)"
  proof -
    have "(d0 * (4096 / 360) + e0 - 2 * (d1 * (4096 / 360) + e1) + (d2 * (4096 / 360) + e2))
              * (pi / 40960) / 3 - y
              = (e0 - 2 * e1 + e2) / 3 * (pi / 40960)"
      unfolding d0_def d1_def d2_def by (simp add: field_simps)
    then show ?thesis by (simp only: r0 r1 r2)
  qed
  have te: "(of_int (degps_to_raw d0) + of_int (degps_to_raw d1) + of_int (degps_to_raw d2))
              * (3 / 256) - theta
              = (e0 + e1 + e2) * (3 / 256)"
  proof -
    have "(d0 * (4096 / 360) + e0 + (d1 * (4096 / 360) + e1) + (d2 * (4096 / 360) + e2))
              * (3 / 256) - theta
              = (e0 + e1 + e2) * (3 / 256)"
      unfolding d0_def d1_def d2_def by (simp add: field_simps)
    then show ?thesis by (simp only: r0 r1 r2)
  qed
  have xb: "\<bar>(e2 - e0) * (pi / 40960 / sqrt 3)\<bar> \<le> 1 / 1000"
  proof -
    have "\<bar>e2 - e0\<bar> \<le> 1" using b0 b2 by linarith
    moreover have "0 \<le> pi / 40960 / sqrt 3" by simp
    ultimately have "\<bar>e2 - e0\<bar> * (pi / 40960 / sqrt 3) \<le> 1 * (1 / 1000)"
      using tick_small(1) by (intro mult_mono) simp_all
    then show ?thesis by (simp add: abs_mult)
  qed
  have yb: "\<bar>(e0 - 2 * e1 + e2) / 3 * (pi / 40960)\<bar> \<le> 1 / 1000"
  proof -
    have "\<bar>e0 - 2 * e1 + e2\<bar> \<le> 3" using b0 b1 b2 by linarith
    then have "\<bar>(e0 - 2 * e1 + e2) / 3\<bar> \<le> 1" by simp
    moreover have "0 \<le> pi / 40960" by simp
    ultimately have "\<bar>(e0 - 2 * e1 + e2) / 3\<bar> * (pi / 40960) \<le> 1 * (1 / 1000)"
      using tick_small(2) by (intro mult_mono) simp_all
    then show ?thesis by (simp add: abs_mult)
  qed
  have tb: "\<bar>(e0 + e1 + e2) * (3 / 256)\<bar> \<le> 9 / 512"
  proof -
    define t where "t = (e0 + e1 + e2) * (3 / 256)"
    have lo: "- (3 / 2) \<le> e0 + e1 + e2" and hi: "e0 + e1 + e2 \<le> 3 / 2"
      using b0 b1 b2 by linarith+
    have c: "3 / 2 * (3 / 256) = (9 / 512 :: real)" "- (3 / 2) * (3 / 256) = (- (9 / 512) :: real)"
      by simp_all
    have "t \<le> 3 / 2 * (3 / 256)"
      unfolding t_def using hi by (intro mult_right_mono) simp_all
    then have u: "t \<le> 9 / 512" by (simp only: c)
    have "- (3 / 2) * (3 / 256) \<le> t"
      unfolding t_def using lo by (intro mult_right_mono) simp_all
    then have "- (9 / 512) \<le> t" by (simp only: c)
    then have l: "- t \<le> 9 / 512" by linarith
    from u l have "\<bar>t\<bar> \<le> 9 / 512" by (simp only: abs_le_iff)
    then show ?thesis by (simp only: t_def)
  qed
  show ?thesis
    apply (intro exI conjI)
        apply (rule body_to_wheel_raw_unsaturated [OF D m])
       apply (rule wheel_raw_to_body_default)
      apply (simp only: xe xb)
     apply (simp only: ye yb)
    apply (simp only: te tb)
    done
qed

theorem round_trip_quantised_witness:
  "max_raw_computed (wheel_degps (1 / 10) 0 0 (1 / 20) (1 / 8)) \<le> 3000
   \<and> (\<exists>l k r x' y' theta'.
      body_to_wheel_raw (1 / 10) 0 0 (1 / 20) (1 / 8) 3000
        = Inr [(''base_left_wheel'', l), (''base_back_wheel'', k), (''base_right_wheel'', r)]
    \<and> wheel_raw_to_body l k r (1 / 20) (1 / 8)
        = Inr [(''x.vel'', x'), (''y.vel'', y'), (''theta.vel'', theta')]
    \<and> \<bar>x' - 1 / 10\<bar> \<le> 1 / 1000 \<and> \<bar>y' - 0\<bar> \<le> 1 / 1000 \<and> \<bar>theta' - 0\<bar> \<le> 9 / 512)"
proof -
  have h: "max_raw_computed (wheel_degps (1 / 10) 0 0 (1 / 20) (1 / 8)) \<le> 3000"
    using scenario_max by (simp only: scenario_degps)
  from round_trip_quantised [OF h] h show ?thesis by (intro conjI)
qed

lemma slow_spin_degps: "wheel_degps 0 0 (1 / 100) (1 / 20) (1 / 8) = [1 / 40, 1 / 40, 1 / 40]"
  by (simp add: wheel_degps_explicit)

lemma slow_spin_raw: "degps_to_raw (1 / 40) = 0"
  by (rule degps_to_raw_near) simp_all

text \<open>
  The round trip as the specification states it, with a tolerance of \<open>1e-3\<close> on every
  component, fails: the forward transform rounds each wheel command to an integer number of
  raw ticks. A rotation of 0.01 degrees per second stays under the cap, is sent as three zero
  commands, and reads back as no motion at all.
\<close>

theorem round_trip_counterexample:
  "max_raw_computed (wheel_degps 0 0 (1 / 100) (1 / 20) (1 / 8)) \<le> 3000
   \<and> body_to_wheel_raw 0 0 (1 / 100) (1 / 20) (1 / 8) 3000
       = Inr [(''base_left_wheel'', 0), (''base_back_wheel'', 0), (''base_right_wheel'', 0)]
   \<and> wheel_raw_to_body 0 0 0 (1 / 20) (1 / 8)
       = Inr [(''x.vel'', 0), (''y.vel'', 0), (''theta.vel'', 0)]
   \<and> \<not> \<bar>0 - 1 / 100 :: real\<bar> \<le> 1 / 1000"
proof -
  have m: "max_raw_computed [1 / 40, 1 / 40, 1 / 40] \<le> 3000"
    by (simp add: max_raw_computed_3)
  have f: "body_to_wheel_raw 0 0 (1 / 100) (1 / 20) (1 / 8) 3000
       = Inr [(''base_left_wheel'', 0), (''base_back_wheel'', 0), (''base_right_wheel'', 0)]"
    using body_to_wheel_raw_unsaturated [OF slow_spin_degps m] by (simp only: slow_spin_raw)
  have i: "wheel_raw_to_body 0 0 0 (1 / 20) (1 / 8)
       = Inr [(''x.vel'', 0), (''y.vel'', 0), (''theta.vel'', 0)]"
    by (simp add: wheel_raw_to_body_default)
  have n: "\<not> \<bar>0 - 1 / 100 :: real\<bar> \<le> 1 / 1000" by simp
  from m have m': "max_raw_computed (wheel_degps 0 0 (1 / 100) (1 / 20) (1 / 8)) \<le> 3000"
    by (simp only: slow_spin_degps)
  from m' f i n show ?thesis by (intro conjI)
qed

section \<open>The robot as constructed\<close>

lemma lekiwi_names:
  "map fst (lekiwi_motors d) =
     [''arm_shoulder_pan'', ''arm_shoulder_lift'', ''arm_elbow_flex'', ''arm_wrist_flex'',
      ''arm_wrist_roll'', ''arm_gripper'', ''base_left_wheel'', ''base_back_wheel'',
      ''base_right_wheel'']"
  by (simp add: lekiwi_motors_def Let_def)

lemma wired_arm:
  "wired r \<Longrightarrow> arm_motors r =
     [''arm_shoulder_pan'', ''arm_shoulder_lift'', ''arm_elbow_flex'', ''arm_wrist_flex'',
      ''arm_wrist_roll'', ''arm_gripper'']"
  by (simp add: wired_def lekiwi_names)

lemma wired_base:
  "wired r \<Longrightarrow> base_motors r = [''base_left_wheel'', ''base_back_wheel'', ''base_right_wheel'']"
  by (simp add: wired_def lekiwi_names)

lemma wired_init: "wired (init cfg hw)"
  by (simp add: wired_def init_def Let_def)

lemma wired_connected_lekiwi: "wired (connected_lekiwi cfg pos)"
  by (simp add: wired_def connected_lekiwi_def init_def Let_def)

lemma default_cameras:
  "cameras (connected_lekiwi default_config pos) =
     [(''front'', \<lparr>cam_config = \<lparr>fps = None, width = None, height = None,
                      index_or_path = ''/dev/video0'', rotation = 1\<rparr>, cam_connected = True\<rparr>),
      (''wrist'', \<lparr>cam_config = \<lparr>fps = None, width = None, height = None,
                      index_or_path = ''/dev/video2'', rotation = 0\<rparr>, cam_connected = True\<rparr>)]"
  by (simp add: connected_lekiwi_def init_def Let_def default_config_def make_cameras_from_configs_def)

lemma connected_lekiwi_is_connected: "is_connected (connected_lekiwi default_config pos)"
  by (simp add: is_connected_def default_cameras) (simp add: connected_lekiwi_def init_def Let_def)

section \<open>Connection state\<close>

text \<open>
  Claim C6. \<open>is_connected\<close> holds exactly when the bus reports connected and every configured
  camera reports connected; with two cameras and a connected bus, one disconnected camera
  makes \<open>is_connected\<close> false.
\<close>

theorem connected_state_composition:
  "(is_connected r \<longleftrightarrow>
      bus_connected (bus r) \<and> (\<forall>cam \<in> set (map snd (cameras r)). cam_connected cam))
   \<and> (\<forall>k1 c1 k2 c2.
        cameras r = [(k1, c1), (k2, c2)] \<and> bus_connected (bus r)
        \<and> (\<not> cam_connected c1 \<or> \<not> cam_connected c2)
        \<longrightarrow> \<not> is_connected r)"
  by (auto simp: is_connected_def list_all_iff)

section \<open>Stopping the base\<close>

text \<open>
  Claim C8. In every state of the robot, connected or not, \<open>stop_base\<close> makes exactly one
  call on the bus: a \<open>Goal_Velocity\<close> write of zero to the three base actuators with retry
  count 5. Its outcome is the outcome of that transfer; it never raises
  \<open>DeviceNotConnectedError\<close>.
\<close>

theorem stop_base_always_attempted:
  assumes "wired r"
  shows "stop_base r =
      (if link_ok (bus r) then Inr () else Inl BusCommunicationFailure,
       r\<lparr>bus := (bus r)\<lparr>calls := calls (bus r) @
          [SyncWrite ''Goal_Velocity''
             [(''base_left_wheel'', 0), (''base_back_wheel'', 0), (''base_right_wheel'', 0)]
             (Some 5)]\<rparr>\<rparr>)
    \<and> fst (stop_base r) \<noteq> Inl DeviceNotConnectedError"
  by (simp add: stop_base_def on_bus_def sync_write_def transfer_def wired_base [OF assms]
      fromkeys_def dict_update_def)

theorem connected_state_composition_witness:
  "bus_connected (bus ((connected_lekiwi default_config (\<lambda>_. 0))
      \<lparr>cameras := map (\<lambda>(k, c). (k, c\<lparr>cam_connected := (k = ''front'')\<rparr>))
                      (cameras (connected_lekiwi default_config (\<lambda>_. 0)))\<rparr>))
   \<and> map (\<lambda>(k, c). (k, cam_connected c))
        (cameras ((connected_lekiwi default_config (\<lambda>_. 0))
          \<lparr>cameras := map (\<lambda>(k, c). (k, c\<lparr>cam_connected := (k = ''front'')\<rparr>))
                          (cameras (connected_lekiwi default_config (\<lambda>_. 0)))\<rparr>))
       = [(''front'', True), (''wrist'', False)]
   \<and> \<not> is_connected ((connected_lekiwi default_config (\<lambda>_. 0))
      \<lparr>cameras := map (\<lambda>(k, c). (k, c\<lparr>cam_connected := (k = ''front'')\<rparr>))
                      (cameras (connected_lekiwi default_config (\<lambda>_. 0)))\<rparr>)"
proof -
  define r where "r = (connected_lekiwi default_config (\<lambda>_. 0))
      \<lparr>cameras := map (\<lambda>(k, c). (k, c\<lparr>cam_connected := (k = ''front'')\<rparr>))
                      (cameras (connected_lekiwi default_config (\<lambda>_. 0)))\<rparr>"
  have b: "bus_connected (bus r)"
    by (simp add: r_def connected_lekiwi_def init_def Let_def)
  have c: "map (\<lambda>(k, c). (k, cam_connected c)) (cameras r) = [(''front'', True), (''wrist'', False)]"
    by (simp add: r_def default_cameras)
  then have "\<not> (\<forall>cam \<in> set (map snd (cameras r)). cam_connected cam)"
    by (auto simp: r_def default_cameras)
  with connected_state_composition [of r] have "\<not> is_connected r" by blast
  with b c show ?thesis unfolding r_def by (intro conjI)
qed

theorem stop_base_always_attempted_witness:
  "wired (init default_config \<lparr>bus_motors = [], bus_connected = False, link_ok = True,
                               present_position = (\<lambda>_. 0), calls = []\<rparr>)
   \<and> \<not> is_connected (init default_config \<lparr>bus_motors = [], bus_connected = False, link_ok = True,
                               present_position = (\<lambda>_. 0), calls = []\<rparr>)
   \<and> fst (stop_base (init default_config \<lparr>bus_motors = [], bus_connected = False, link_ok = True,
                               present_position = (\<lambda>_. 0), calls = []\<rparr>)) = Inr ()
   \<and> calls (bus (snd (stop_base (init default_config \<lparr>bus_motors = [], bus_connected = False,
                               link_ok = True, present_position = (\<lambda>_. 0), calls = []\<rparr>))))
       = [SyncWrite ''Goal_Velocity''
            [(''base_left_wheel'', 0), (''base_back_wheel'', 0), (''base_right_wheel'', 0)]
            (Some 5)]"
proof -
  define r where "r = init default_config \<lparr>bus_motors = [], bus_connected = False, link_ok = True,
                               present_position = (\<lambda>_. 0), calls = []\<rparr>"
  have w: "wired r" unfolding r_def by (rule wired_init)
  have n: "\<not> is_connected r" by (simp add: r_def is_connected_def init_def Let_def)
  have l: "link_ok (bus r)" "calls (bus r) = []" by (simp_all add: r_def init_def Let_def)
  from stop_base_always_attempted [OF w] l
  have "fst (stop_base r) = Inr ()"
    and "calls (bus (snd (stop_base r))) = [SyncWrite ''Goal_Velocity''
            [(''base_left_wheel'', 0), (''base_back_wheel'', 0), (''base_right_wheel'', 0)]
            (Some 5)]"
    by simp_all
  with w n show ?thesis unfolding r_def by (intro conjI)
qed

section \<open>Actions without a velocity key\<close>

lemma map_of_filter_key:
  "map_of (filter (\<lambda>(k, v). P k) d) k = (if P k then map_of d k else None)"
  by (induction d) auto

lemma vel_keys: "endswith ''x.vel'' ''.vel''" "endswith ''y.vel'' ''.vel''" "endswith ''theta.vel'' ''.vel''"
  by (simp_all add: endswith_def)

lemma dict_get_vel:
  "endswith k ''.vel'' \<Longrightarrow>
     dict_get (filter (\<lambda>(k, v). endswith k ''.vel'') action) k
       = (case map_of action k of None \<Rightarrow> Inl (KeyError k) | Some v \<Rightarrow> Inr v)"
  by (simp add: dict_get_def map_of_filter_key)

text \<open>
  Claim C10. On a connected robot, an action that lacks one of the keys \<open>x.vel\<close>, \<open>y.vel\<close>,
  \<open>theta.vel\<close> makes \<open>send_action\<close> raise \<open>KeyError\<close> for the first missing one, with the robot
  and its bus untouched: nothing is read from or written to the bus.
\<close>

theorem send_action_missing_velocity_key:
  assumes "is_connected r"
    and "map_of action ''x.vel'' = None \<or> map_of action ''y.vel'' = None
         \<or> map_of action ''theta.vel'' = None"
  shows "send_action r action =
      (Inl (KeyError (if map_of action ''x.vel'' = None then ''x.vel''
                      else if map_of action ''y.vel'' = None then ''y.vel''
                      else ''theta.vel'')), r)"
proof -
  note g = dict_get_vel [OF vel_keys(1)] dict_get_vel [OF vel_keys(2)] dict_get_vel [OF vel_keys(3)]
  consider (x) "map_of action ''x.vel'' = None"
    | (y) vx where "map_of action ''x.vel'' = Some vx" "map_of action ''y.vel'' = None"
    | (t) vx vy where "map_of action ''x.vel'' = Some vx" "map_of action ''y.vel'' = Some vy"
        "map_of action ''theta.vel'' = None"
    using assms(2) by fastforce
  then show ?thesis
  proof cases
    case x
    with assms(1) show ?thesis by (simp add: send_action_def Let_def g)
  next
    case y
    with assms(1) show ?thesis by (simp add: send_action_def Let_def g)
  next
    case t
    with assms(1) show ?thesis by (simp add: send_action_def Let_def g)
  qed
qed

theorem send_action_missing_velocity_key_witness:
  "is_connected (connected_lekiwi default_config (\<lambda>_. 0))
   \<and> map_of [(''arm_gripper.pos'', 10 :: real)] ''x.vel'' = None
   \<and> send_action (connected_lekiwi default_config (\<lambda>_. 0)) [(''arm_gripper.pos'', 10)]
       = (Inl (KeyError ''x.vel''), connected_lekiwi default_config (\<lambda>_. 0))"
proof -
  have c: "is_connected (connected_lekiwi default_config (\<lambda>_. 0))"
    by (rule connected_lekiwi_is_connected)
  have m: "map_of [(''arm_gripper.pos'', 10 :: real)] ''x.vel'' = None" by simp
  then have d: "map_of [(''arm_gripper.pos'', 10 :: real)] ''x.vel'' = None
      \<or> map_of [(''arm_gripper.pos'', 10 :: real)] ''y.vel'' = None
      \<or> map_of [(''arm_gripper.pos'', 10 :: real)] ''theta.vel'' = None" by simp
  from send_action_missing_velocity_key [OF c d] c m show ?thesis by simp
qed

section \<open>Calibration\<close>

lemma map_of_dict_set: "map_of (dict_set d k v) = (map_of d)(k \<mapsto> v)"
  by (induction d) auto

lemma dict_get_dict_set:
  "dict_get (dict_set d k v) k' = (if k' = k then Inr v else dict_get d k')"
  by (simp add: dict_get_def map_of_dict_set)

lemma keys_dict_set:
  "map fst (dict_set d k v) = (if k \<in> set (map fst d) then map fst d else map fst d @ [k])"
  by (induction d) (auto simp: rev_image_eqI)

lemma wired_motors: "wired r \<Longrightarrow> bus_motors (bus r) = lekiwi_motors (use_degrees (config r))"
  by (simp add: wired_def)

lemma full_turn_names:
  "filter (\<lambda>m. list_ex (\<lambda>keyword. str_in keyword m) [''wheel'', ''wrist_roll''])
     [''arm_shoulder_pan'', ''arm_shoulder_lift'', ''arm_elbow_flex'', ''arm_wrist_flex'',
      ''arm_wrist_roll'', ''arm_gripper'', ''base_left_wheel'', ''base_back_wheel'',
      ''base_right_wheel'']
   = [''arm_wrist_roll'', ''base_left_wheel'', ''base_back_wheel'', ''base_right_wheel'']"
  by simp

lemma full_turn_names':
  "filter (\<lambda>m. str_in ''wheel'' m \<or> str_in ''wrist_roll'' m)
     [''arm_shoulder_pan'', ''arm_shoulder_lift'', ''arm_elbow_flex'', ''arm_wrist_flex'',
      ''arm_wrist_roll'', ''arm_gripper'', ''base_left_wheel'', ''base_back_wheel'',
      ''base_right_wheel'']
   = [''arm_wrist_roll'', ''base_left_wheel'', ''base_back_wheel'', ''base_right_wheel'']"
  by simp

lemma dict_get_Some: "map_of d k = Some v \<Longrightarrow> dict_get d k = Inr v"
  by (simp add: dict_get_def)

lemma unknown_range_names:
  "filter (\<lambda>m. m \<notin> set
        [''arm_wrist_roll'', ''base_left_wheel'', ''base_back_wheel'', ''base_right_wheel''])
     [''arm_shoulder_pan'', ''arm_shoulder_lift'', ''arm_elbow_flex'', ''arm_wrist_flex'',
      ''arm_wrist_roll'', ''arm_gripper'', ''base_left_wheel'', ''base_back_wheel'',
      ''base_right_wheel'']
   = [''arm_shoulder_pan'', ''arm_shoulder_lift'', ''arm_elbow_flex'', ''arm_wrist_flex'',
      ''arm_gripper'']"
  by simp


lemma calibrate_explicit:
  assumes w: "wired r" and l: "link_ok (bus r)"
    and h: "map_of homing_reply ''arm_shoulder_pan'' = Some h1"
      "map_of homing_reply ''arm_shoulder_lift'' = Some h2"
      "map_of homing_reply ''arm_elbow_flex'' = Some h3"
      "map_of homing_reply ''arm_wrist_flex'' = Some h4"
      "map_of homing_reply ''arm_wrist_roll'' = Some h5"
      "map_of homing_reply ''arm_gripper'' = Some h6"
    and lo: "map_of range_mins ''arm_shoulder_pan'' = Some lo1"
      "map_of range_mins ''arm_shoulder_lift'' = Some lo2"
      "map_of range_mins ''arm_elbow_flex'' = Some lo3"
      "map_of range_mins ''arm_wrist_flex'' = Some lo4"
      "map_of range_mins ''arm_gripper'' = Some lo6"
    and hi: "map_of range_maxes ''arm_shoulder_pan'' = Some hi1"
      "map_of range_maxes ''arm_shoulder_lift'' = Some hi2"
      "map_of range_maxes ''arm_elbow_flex'' = Some hi3"
      "map_of range_maxes ''arm_wrist_flex'' = Some hi4"
      "map_of range_maxes ''arm_gripper'' = Some hi6"
  shows "fst (calibrate r homing_reply (range_mins, range_maxes)) =
    Inr [(''arm_shoulder_pan'', \<lparr>cal_id = 1, drive_mode = 0, homing_offset = h1, range_min = lo1, range_max = hi1\<rparr>),
         (''arm_shoulder_lift'', \<lparr>cal_id = 2, drive_mode = 0, homing_offset = h2, range_min = lo2, range_max = hi2\<rparr>),
         (''arm_elbow_flex'', \<lparr>cal_id = 3, drive_mode = 0, homing_offset = h3, range_min = lo3, range_max = hi3\<rparr>),
         (''arm_wrist_flex'', \<lparr>cal_id = 4, drive_mode = 0, homing_offset = h4, range_min = lo4, range_max = hi4\<rparr>),
         (''arm_wrist_roll'', \<lparr>cal_id = 5, drive_mode = 0, homing_offset = h5, range_min = 0, range_max = 4095\<rparr>),
         (''arm_gripper'', \<lparr>cal_id = 6, drive_mode = 0, homing_offset = h6, range_min = lo6, range_max = hi6\<rparr>),
         (''base_left_wheel'', \<lparr>cal_id = 7, drive_mode = 0, homing_offset = 0, range_min = 0, range_max = 4095\<rparr>),
         (''base_back_wheel'', \<lparr>cal_id = 8, drive_mode = 0, homing_offset = 0, range_min = 0, range_max = 4095\<rparr>),
         (''base_right_wheel'', \<lparr>cal_id = 9, drive_mode = 0, homing_offset = 0, range_min = 0, range_max = 4095\<rparr>)]"
proof -
  note g = h [THEN dict_get_Some] lo [THEN dict_get_Some] hi [THEN dict_get_Some]
  show ?thesis
    using l
    by (simp add: calibrate_def Let_def wired_arm [OF w] wired_base [OF w] wired_motors [OF w]
        then_do_def on_bus_def disable_torque_def write_register_def set_half_turn_homings_def
        record_ranges_of_motion_def write_calibration_def transfer_def
        full_turn_names' unknown_range_names fromkeys_def dict_update_def
        dict_get_dict_set g lekiwi_motors_def)
qed

lemma calibrate_calls:
  assumes w: "wired r" and l: "link_ok (bus r)"
    and f: "fst (calibrate r homing_reply ranges_reply) = Inr calibration"
  shows "calls (bus (snd (calibrate r homing_reply ranges_reply))) =
     calls (bus r) @
       [DisableTorque (Some (arm_motors r)),
        Write ''Operating_Mode'' ''arm_shoulder_pan'' POSITION,
        Write ''Operating_Mode'' ''arm_shoulder_lift'' POSITION,
        Write ''Operating_Mode'' ''arm_elbow_flex'' POSITION,
        Write ''Operating_Mode'' ''arm_wrist_flex'' POSITION,
        Write ''Operating_Mode'' ''arm_wrist_roll'' POSITION,
        Write ''Operating_Mode'' ''arm_gripper'' POSITION,
        SetHalfTurnHomings (arm_motors r),
        RecordRangesOfMotion
          [''arm_shoulder_pan'', ''arm_shoulder_lift'', ''arm_elbow_flex'', ''arm_wrist_flex'',
           ''arm_gripper''],
        WriteCalibration calibration]"
proof (cases ranges_reply)
  case (Pair range_mins range_maxes)
  show ?thesis
    using l f unfolding Pair
    by (simp add: calibrate_def Let_def wired_arm [OF w] wired_base [OF w]
        then_do_def on_bus_def disable_torque_def write_register_def set_half_turn_homings_def
        record_ranges_of_motion_def write_calibration_def transfer_def
        full_turn_names' unknown_range_names split: sum.splits)
qed

text \<open>
  Claim C5. On a robot as constructed, with a working bus, whatever the bus answers for the
  homing offsets and the recorded ranges (provided it answers for every arm actuator, and
  for every actuator whose name contains neither \<open>wheel\<close> nor \<open>wrist_roll\<close>): \<open>calibrate\<close> builds
  one record per actuator, in the order of the actuator table, and writes that set to the
  bus last. Every record has the actuator's id and drive mode 0; a base actuator has homing
  offset 0 and every other the offset the bus answered; an actuator whose name contains
  \<open>wheel\<close> or \<open>wrist_roll\<close> has the range 0 to 4095 whatever was recorded for it, and every
  other exactly the recorded minimum and maximum.
\<close>

theorem calibration_finalization:
  assumes w: "wired r" and l: "link_ok (bus r)"
    and h: "\<forall>name \<in> set (arm_motors r). map_of homing_reply name \<noteq> None"
    and b: "\<forall>name \<in> set (arm_motors r @ base_motors r).
              \<not> (str_in ''wheel'' name \<or> str_in ''wrist_roll'' name)
              \<longrightarrow> map_of range_mins name \<noteq> None \<and> map_of range_maxes name \<noteq> None"
  shows "\<exists>calibration.
      fst (calibrate r homing_reply (range_mins, range_maxes)) = Inr calibration
    \<and> last (calls (bus (snd (calibrate r homing_reply (range_mins, range_maxes)))))
        = WriteCalibration calibration
    \<and> map fst calibration = map fst (bus_motors (bus r))
    \<and> (\<forall>(name, m) \<in> set (bus_motors (bus r)).
          \<exists>c. map_of calibration name = Some c
            \<and> cal_id c = motor_id m
            \<and> drive_mode c = 0
            \<and> (if name \<in> set (base_motors r) then homing_offset c = 0
                else map_of homing_reply name = Some (homing_offset c))
            \<and> (if str_in ''wheel'' name \<or> str_in ''wrist_roll'' name
                then range_min c = 0 \<and> range_max c = 4095
                else map_of range_mins name = Some (range_min c)
                     \<and> map_of range_maxes name = Some (range_max c)))"
proof -
  from h obtain h1 h2 h3 h4 h5 h6 where hs:
    "map_of homing_reply ''arm_shoulder_pan'' = Some h1"
    "map_of homing_reply ''arm_shoulder_lift'' = Some h2"
    "map_of homing_reply ''arm_elbow_flex'' = Some h3"
    "map_of homing_reply ''arm_wrist_flex'' = Some h4"
    "map_of homing_reply ''arm_wrist_roll'' = Some h5"
    "map_of homing_reply ''arm_gripper'' = Some h6"
    unfolding wired_arm [OF w] by auto
  from b obtain lo1 lo2 lo3 lo4 lo6 where los:
    "map_of range_mins ''arm_shoulder_pan'' = Some lo1"
    "map_of range_mins ''arm_shoulder_lift'' = Some lo2"
    "map_of range_mins ''arm_elbow_flex'' = Some lo3"
    "map_of range_mins ''arm_wrist_flex'' = Some lo4"
    "map_of range_mins ''arm_gripper'' = Some lo6"
    unfolding wired_arm [OF w] wired_base [OF w] by auto
  from b obtain hi1 hi2 hi3 hi4 hi6 where his:
    "map_of range_maxes ''arm_shoulder_pan'' = Some hi1"
    "map_of range_maxes ''arm_shoulder_lift'' = Some hi2"
    "map_of range_maxes ''arm_elbow_flex'' = Some hi3"
    "map_of range_maxes ''arm_wrist_flex'' = Some hi4"
    "map_of range_maxes ''arm_gripper'' = Some hi6"
    unfolding wired_arm [OF w] wired_base [OF w] by auto
  note c = calibrate_explicit [OF w l hs los his]
  note k = calibrate_calls [OF w l c]
  show ?thesis
    unfolding c k
    by (rule exI, intro conjI, rule refl)
      (simp_all add: wired_motors [OF w] wired_base [OF w] lekiwi_motors_def hs los his)
qed

theorem calibration_finalization_witness:
  "wired (connected_lekiwi default_config (\<lambda>_. 0))
   \<and> link_ok (bus (connected_lekiwi default_config (\<lambda>_. 0)))
   \<and> map (map_of [(''arm_shoulder_pan'', 11), (''arm_shoulder_lift'', 12), (''arm_elbow_flex'', 13),
                   (''arm_wrist_flex'', 14), (''arm_wrist_roll'', 15), (''arm_gripper'', 16 :: int)])
        (arm_motors (connected_lekiwi default_config (\<lambda>_. 0)))
       = [Some 11, Some 12, Some 13, Some 14, Some 15, Some 16]
   \<and> (\<exists>calibration.
        fst (calibrate (connected_lekiwi default_config (\<lambda>_. 0))
              [(''arm_shoulder_pan'', 11), (''arm_shoulder_lift'', 12), (''arm_elbow_flex'', 13),
               (''arm_wrist_flex'', 14), (''arm_wrist_roll'', 15), (''arm_gripper'', 16)]
              ([(''arm_shoulder_pan'', 100), (''arm_shoulder_lift'', 200), (''arm_elbow_flex'', 300),
                (''arm_wrist_flex'', 400), (''arm_wrist_roll'', 500), (''arm_gripper'', 600)],
               [(''arm_shoulder_pan'', 3100), (''arm_shoulder_lift'', 3200), (''arm_elbow_flex'', 3300),
                (''arm_wrist_flex'', 3400), (''arm_wrist_roll'', 3500), (''arm_gripper'', 3600)]))
          = Inr calibration
      \<and> map_of calibration ''arm_gripper''
          = Some \<lparr>cal_id = 6, drive_mode = 0, homing_offset = 16, range_min = 600, range_max = 3600\<rparr>
      \<and> map_of calibration ''arm_wrist_roll''
          = Some \<lparr>cal_id = 5, drive_mode = 0, homing_offset = 15, range_min = 0, range_max = 4095\<rparr>
      \<and> map_of calibration ''base_back_wheel''
          = Some \<lparr>cal_id = 8, drive_mode = 0, homing_offset = 0, range_min = 0, range_max = 4095\<rparr>)"
proof -
  define r where "r = connected_lekiwi default_config (\<lambda>_. 0)"
  define H where "H = [(''arm_shoulder_pan'', 11), (''arm_shoulder_lift'', 12), (''arm_elbow_flex'', 13),
                   (''arm_wrist_flex'', 14), (''arm_wrist_roll'', 15), (''arm_gripper'', 16 :: int)]"
  define LO where "LO = [(''arm_shoulder_pan'', 100), (''arm_shoulder_lift'', 200), (''arm_elbow_flex'', 300),
                (''arm_wrist_flex'', 400), (''arm_wrist_roll'', 500), (''arm_gripper'', 600 :: int)]"
  define HI where "HI = [(''arm_shoulder_pan'', 3100), (''arm_shoulder_lift'', 3200), (''arm_elbow_flex'', 3300),
                (''arm_wrist_flex'', 3400), (''arm_wrist_roll'', 3500), (''arm_gripper'', 3600 :: int)]"
  have w: "wired r" unfolding r_def by (rule wired_connected_lekiwi)
  have l: "link_ok (bus r)" by (simp add: r_def connected_lekiwi_def init_def Let_def)
  have hm: "map (map_of H) (arm_motors r) = [Some 11, Some 12, Some 13, Some 14, Some 15, Some 16]"
    by (simp add: wired_arm [OF w] H_def)
  have h: "\<forall>name \<in> set (arm_motors r). map_of H name \<noteq> None"
    by (simp add: wired_arm [OF w] H_def)
  have b: "\<forall>name \<in> set (arm_motors r @ base_motors r).
              \<not> (str_in ''wheel'' name \<or> str_in ''wrist_roll'' name)
              \<longrightarrow> map_of LO name \<noteq> None \<and> map_of HI name \<noteq> None"
    by (simp add: wired_arm [OF w] wired_base [OF w] LO_def HI_def)
  from calibration_finalization [OF w l h b] obtain calibration where
    f: "fst (calibrate r H (LO, HI)) = Inr calibration"
    and a: "\<forall>(name, m) \<in> set (bus_motors (bus r)).
          \<exists>c. map_of calibration name = Some c
            \<and> cal_id c = motor_id m
            \<and> drive_mode c = 0
            \<and> (if name \<in> set (base_motors r) then homing_offset c = 0
                else map_of H name = Some (homing_offset c))
            \<and> (if str_in ''wheel'' name \<or> str_in ''wrist_roll'' name
                then range_min c = 0 \<and> range_max c = 4095
                else map_of LO name = Some (range_min c)
                     \<and> map_of HI name = Some (range_max c))"
    by blast
  have m: "bus_motors (bus r) = lekiwi_motors False"
    using wired_motors [OF w] by (simp add: r_def connected_lekiwi_def init_def Let_def default_config_def)
  have g: "map_of calibration ''arm_gripper''
          = Some \<lparr>cal_id = 6, drive_mode = 0, homing_offset = 16, range_min = 600, range_max = 3600\<rparr>"
  proof -
    from a obtain c where "map_of calibration ''arm_gripper'' = Some c"
      "cal_id c = 6" "drive_mode c = 0" "homing_offset c = 16" "range_min c = 600" "range_max c = 3600"
      unfolding m by (auto simp: lekiwi_motors_def wired_base [OF w] H_def LO_def HI_def)
    then show ?thesis by (cases c) simp
  qed
  have wr: "map_of calibration ''arm_wrist_roll''
          = Some \<lparr>cal_id = 5, drive_mode = 0, homing_offset = 15, range_min = 0, range_max = 4095\<rparr>"
  proof -
    from a obtain c where "map_of calibration ''arm_wrist_roll'' = Some c"
      "cal_id c = 5" "drive_mode c = 0" "homing_offset c = 15" "range_min c = 0" "range_max c = 4095"
      unfolding m by (auto simp: lekiwi_motors_def wired_base [OF w] H_def LO_def HI_def)
    then show ?thesis by (cases c) simp
  qed
  have bw: "map_of calibration ''base_back_wheel''
          = Some \<lparr>cal_id = 8, drive_mode = 0, homing_offset = 0, range_min = 0, range_max = 4095\<rparr>"
  proof -
    from a obtain c where "map_of calibration ''base_back_wheel'' = Some c"
      "cal_id c = 8" "drive_mode c = 0" "homing_offset c = 0" "range_min c = 0" "range_max c = 4095"
      unfolding m by (auto simp: lekiwi_motors_def wired_base [OF w] H_def LO_def HI_def)
    then show ?thesis by (cases c) simp
  qed
  from w l hm f g wr bw show ?thesis
    unfolding r_def H_def LO_def HI_def by blast
qed

section \<open>The safety clamp\<close>

lemma map_of_dict_update_other:
  "k \<notin> fst ` set e \<Longrightarrow> map_of (dict_update d e) k = map_of d k"
  unfolding dict_update_def
  by (induction e arbitrary: d) (auto simp: map_of_dict_set)

lemma pos_not_vel: "endswith k ''.pos'' \<Longrightarrow> \<not> endswith k ''.vel''"
  by (cases "rev k") (auto simp: endswith_def)

lemma clamp_goals_result:
  assumes "distinct (map fst items)"
    and "\<forall>(k, g) \<in> set items. map_of present (str_remove ''.pos'' k) \<noteq> None"
  shows "\<exists>res. clamp_goals mrt present items acc = Inr res
    \<and> (\<forall>k. k \<notin> fst ` set items \<longrightarrow> map_of res k = map_of acc k)
    \<and> (\<forall>(k, g) \<in> set items. \<forall>p. map_of present (str_remove ''.pos'' k) = Some p \<longrightarrow>
          map_of res k =
            (case (case mrt of Scalar m \<Rightarrow> Some m | PerMotor d \<Rightarrow> map_of d (str_remove ''.pos'' k)) of
               None \<Rightarrow> map_of acc k
             | Some m \<Rightarrow> if \<bar>g - p\<bar> > m then Some (p + sgn (g - p) * m) else map_of acc k))"
  using assms
proof (induction items arbitrary: acc)
  case Nil
  then show ?case by simp
next
  case (Cons item items)
  obtain key g_pos where item: "item = (key, g_pos)" by (cases item)
  from Cons.prems(2) obtain p_pos where p: "map_of present (str_remove ''.pos'' key) = Some p_pos"
    unfolding item by auto
  from Cons.prems have d: "distinct (map fst items)" and nk: "key \<notin> fst ` set items"
    and pr: "\<forall>(k, g) \<in> set items. map_of present (str_remove ''.pos'' k) \<noteq> None"
    unfolding item by auto
  define lim where "lim = (case mrt of Scalar m \<Rightarrow> Some m | PerMotor d \<Rightarrow> map_of d (str_remove ''.pos'' key))"
  define acc' where "acc' = (case lim of None \<Rightarrow> acc
      | Some m \<Rightarrow> if \<bar>g_pos - p_pos\<bar> > m then dict_set acc key (p_pos + sgn (g_pos - p_pos) * m) else acc)"
  have step: "clamp_goals mrt present (item # items) acc = clamp_goals mrt present items acc'"
    unfolding item acc'_def lim_def
    by (simp add: dict_get_Some [OF p] Let_def split: option.splits)
  from Cons.IH [OF d pr, of acc'] obtain res where
    r: "clamp_goals mrt present items acc' = Inr res"
    and o: "\<forall>k. k \<notin> fst ` set items \<longrightarrow> map_of res k = map_of acc' k"
    and i: "\<forall>(k, g) \<in> set items. \<forall>p. map_of present (str_remove ''.pos'' k) = Some p \<longrightarrow>
          map_of res k =
            (case (case mrt of Scalar m \<Rightarrow> Some m | PerMotor d \<Rightarrow> map_of d (str_remove ''.pos'' k)) of
               None \<Rightarrow> map_of acc' k
             | Some m \<Rightarrow> if \<bar>g - p\<bar> > m then Some (p + sgn (g - p) * m) else map_of acc' k)"
    by blast
  have other: "map_of acc' k = map_of acc k" if "k \<noteq> key" for k
    using that unfolding acc'_def by (simp add: map_of_dict_set split: option.splits)
  have here: "map_of acc' key =
      (case lim of None \<Rightarrow> map_of acc key
       | Some m \<Rightarrow> if \<bar>g_pos - p_pos\<bar> > m then Some (p_pos + sgn (g_pos - p_pos) * m) else map_of acc key)"
    unfolding acc'_def by (simp add: map_of_dict_set split: option.splits)
  have 1: "\<forall>k. k \<notin> fst ` set (item # items) \<longrightarrow> map_of res k = map_of acc k"
    using o other unfolding item by auto
  have 2: "\<forall>(k, g) \<in> set (item # items). \<forall>p. map_of present (str_remove ''.pos'' k) = Some p \<longrightarrow>
          map_of res k =
            (case (case mrt of Scalar m \<Rightarrow> Some m | PerMotor d \<Rightarrow> map_of d (str_remove ''.pos'' k)) of
               None \<Rightarrow> map_of acc k
             | Some m \<Rightarrow> if \<bar>g - p\<bar> > m then Some (p + sgn (g - p) * m) else map_of acc k)"
  proof (intro ballI, clarify)
    fix k g p
    assume m: "(k, g) \<in> set (item # items)" and pk: "map_of present (str_remove ''.pos'' k) = Some p"
    show "map_of res k =
            (case (case mrt of Scalar m \<Rightarrow> Some m | PerMotor d \<Rightarrow> map_of d (str_remove ''.pos'' k)) of
               None \<Rightarrow> map_of acc k
             | Some m \<Rightarrow> if \<bar>g - p\<bar> > m then Some (p + sgn (g - p) * m) else map_of acc k)"
    proof (cases "(k, g) = item")
      case True
      then have kg: "k = key" "g = g_pos" unfolding item by simp_all
      with pk p have pp: "p = p_pos" by simp
      from o nk have "map_of res key = map_of acc' key" by simp
      then show ?thesis unfolding kg pp here lim_def .
    next
      case False
      with m have mi: "(k, g) \<in> set items" by simp
      with nk have ne: "k \<noteq> key" by force
      from i mi pk have "map_of res k =
            (case (case mrt of Scalar m \<Rightarrow> Some m | PerMotor d \<Rightarrow> map_of d (str_remove ''.pos'' k)) of
               None \<Rightarrow> map_of acc' k
             | Some m \<Rightarrow> if \<bar>g - p\<bar> > m then Some (p + sgn (g - p) * m) else map_of acc' k)"
        by blast
      then show ?thesis by (simp only: other [OF ne])
    qed
  qed
  from r step 1 2 show ?case by (simp only:) blast
qed

lemma body_to_wheel_raw_total: "\<exists>W. body_to_wheel_raw x y theta (1 / 20) (1 / 8) 3000 = Inr W"
  by (auto simp: body_to_wheel_raw_def Let_def)

lemma send_action_ok:
  assumes c: "is_connected r" and l: "link_ok (bus r)"
    and v: "map_of action ''x.vel'' = Some x" "map_of action ''y.vel'' = Some y"
      "map_of action ''theta.vel'' = Some theta"
    and W: "body_to_wheel_raw x y theta (1 / 20) (1 / 8) 3000 = Inr W"
    and s: "(case max_relative_target (config r) of
               None \<Rightarrow> Inr (filter (\<lambda>(k, v). endswith k ''.pos'') action)
             | Some mrt \<Rightarrow>
                 clamp_goals mrt (map (\<lambda>n. (n, present_position (bus r) n)) (arm_motors r))
                   (filter (\<lambda>(k, v). endswith k ''.pos'') action)
                   (filter (\<lambda>(k, v). endswith k ''.pos'') action)) = Inr A"
  shows "send_action r action =
     (Inr (dict_update A (filter (\<lambda>(k, v). endswith k ''.vel'') action)),
      r\<lparr>bus := (bus r)\<lparr>calls := calls (bus r)
           @ (case max_relative_target (config r) of
                None \<Rightarrow> []
              | Some mrt \<Rightarrow> [SyncRead ''Present_Position'' (arm_motors r)])
           @ [SyncWrite ''Goal_Position''
                (dict_update [] (map (\<lambda>(k, v). (str_remove ''.pos'' k, v)) A)) None,
              SyncWrite ''Goal_Velocity'' (map (\<lambda>(k, v). (k, real_of_int v)) W) None]\<rparr>\<rparr>)"
proof -
  note g = dict_get_vel [OF vel_keys(1)] dict_get_vel [OF vel_keys(2)] dict_get_vel [OF vel_keys(3)]
  show ?thesis
  proof (cases "max_relative_target (config r)")
    case None
    with c l s show ?thesis
      by (simp add: send_action_def Let_def g v W then_do_def on_bus_def sync_write_def
          transfer_def)
  next
    case (Some mrt)
    with c l s show ?thesis
      by (simp add: send_action_def Let_def g v W then_do_def on_bus_def sync_write_def
          sync_read_def transfer_def)
  qed
qed

lemma clamp_value:
  fixes m g p :: real
  assumes "0 \<le> m" and "\<bar>g - p\<bar> > m"
  shows "\<bar>(p + sgn (g - p) * m) - p\<bar> \<le> m"
    and "sgn ((p + sgn (g - p) * m) - p) = sgn (g - p) \<or> (p + sgn (g - p) * m) - p = 0"
proof -
  have ne: "g - p \<noteq> 0"
  proof
    assume "g - p = 0"
    then have "\<bar>g - p\<bar> = 0" by simp
    with assms show False by simp
  qed
  then have a: "\<bar>sgn (g - p)\<bar> = 1" by (simp add: sgn_if)
  have "\<bar>sgn (g - p) * m\<bar> = \<bar>sgn (g - p)\<bar> * \<bar>m\<bar>" by (rule abs_mult)
  also have "\<dots> = m" using a assms(1) by simp
  finally show "\<bar>(p + sgn (g - p) * m) - p\<bar> \<le> m" by simp
  show "sgn ((p + sgn (g - p) * m) - p) = sgn (g - p) \<or> (p + sgn (g - p) * m) - p = 0"
  proof (cases "m = 0")
    case True
    then show ?thesis by simp
  next
    case False
    with assms(1) have "0 < m" by simp
    then have "sgn (sgn (g - p) * m) = sgn (g - p)"
      by (simp add: sgn_mult)
    then show ?thesis by simp
  qed
qed

lemma map_of_readings:
  "map_of (map (\<lambda>n. (n, f n)) names) k = (if k \<in> set names then Some (f k) else None)"
  by (induction names) auto

lemma clamped_goal_properties:
  fixes g p :: real
  assumes "\<forall>m. cap = Some m \<longrightarrow> 0 \<le> m"
    and "g' = (case cap of None \<Rightarrow> g
               | Some m \<Rightarrow> if \<bar>g - p\<bar> > m then p + sgn (g - p) * m else g)"
  shows "(\<forall>m. cap = Some m \<longrightarrow> \<bar>g' - p\<bar> \<le> m)
       \<and> (sgn (g' - p) = sgn (g - p) \<or> g' - p = 0)
       \<and> ((\<forall>m. cap = Some m \<longrightarrow> \<bar>g - p\<bar> \<le> m) \<longrightarrow> g' = g)"
proof (cases cap)
  case None
  with assms(2) show ?thesis by simp
next
  case (Some m)
  with assms(1) have m0: "0 \<le> m" by simp
  show ?thesis
  proof (cases "\<bar>g - p\<bar> > m")
    case True
    with assms(2) Some have g': "g' = p + sgn (g - p) * m" by simp
    from clamp_value [OF m0 True] True show ?thesis unfolding g' Some by simp
  next
    case False
    with assms(2) Some have "g' = g" by simp
    with False show ?thesis unfolding Some by simp
  qed
qed

text \<open>
  Claim C2, amended. On a connected robot with a working bus and limits that are not
  negative, for an action with distinct keys, the three velocity keys and position keys that
  name arm actuators: \<open>send_action\<close> succeeds, and for every position goal \<open>g\<close> of the action,
  with \<open>p\<close> the present position the bus reports for its actuator, the returned goal \<open>g'\<close> is
  no further from \<open>p\<close> than the actuator's limit (the scalar, or the dictionary's entry; an
  actuator without an entry has no limit), \<open>g' - p\<close> has the sign of \<open>g - p\<close> or is zero, and a
  goal within the limit is returned unchanged.
\<close>

theorem safety_clamp:
  assumes c: "is_connected r" and l: "link_ok (bus r)"
    and v: "map_of action ''x.vel'' \<noteq> None" "map_of action ''y.vel'' \<noteq> None"
      "map_of action ''theta.vel'' \<noteq> None"
    and d: "distinct (map fst action)"
    and n: "\<forall>(key, g) \<in> set action.
              endswith key ''.pos'' \<longrightarrow> str_remove ''.pos'' key \<in> set (arm_motors r)"
    and m: "max_relative_target (config r) = Some mrt"
    and nn: "\<forall>name m. (case mrt of Scalar m \<Rightarrow> Some m | PerMotor d \<Rightarrow> map_of d name) = Some m
               \<longrightarrow> 0 \<le> m"
  shows "\<exists>sent r'. send_action r action = (Inr sent, r')
    \<and> (\<forall>(key, g) \<in> set action. endswith key ''.pos'' \<longrightarrow>
          (\<exists>g'. map_of sent key = Some g'
             \<and> (\<forall>m. (case mrt of Scalar m \<Rightarrow> Some m
                            | PerMotor d \<Rightarrow> map_of d (str_remove ''.pos'' key)) = Some m
                     \<longrightarrow> \<bar>g' - present_position (bus r) (str_remove ''.pos'' key)\<bar> \<le> m)
             \<and> (sgn (g' - present_position (bus r) (str_remove ''.pos'' key))
                   = sgn (g - present_position (bus r) (str_remove ''.pos'' key))
                 \<or> g' - present_position (bus r) (str_remove ''.pos'' key) = 0)
             \<and> ((\<forall>m. (case mrt of Scalar m \<Rightarrow> Some m
                             | PerMotor d \<Rightarrow> map_of d (str_remove ''.pos'' key)) = Some m
                      \<longrightarrow> \<bar>g - present_position (bus r) (str_remove ''.pos'' key)\<bar> \<le> m)
                 \<longrightarrow> g' = g)))"
proof -
  define A where "A = filter (\<lambda>(k, v). endswith k ''.pos'') action"
  define V where "V = filter (\<lambda>(k, v). endswith k ''.vel'') action"
  define present where "present = map (\<lambda>n. (n, present_position (bus r) n)) (arm_motors r)"
  from v obtain x y theta where vs: "map_of action ''x.vel'' = Some x"
    "map_of action ''y.vel'' = Some y" "map_of action ''theta.vel'' = Some theta" by auto
  obtain W where W: "body_to_wheel_raw x y theta (1 / 20) (1 / 8) 3000 = Inr W"
    using body_to_wheel_raw_total by blast
  from d have dA: "distinct (map fst A)" unfolding A_def by (rule distinct_map_filter)
  have pA: "\<forall>(k, g) \<in> set A. map_of present (str_remove ''.pos'' k) \<noteq> None"
    using n unfolding A_def present_def by (auto simp: map_of_readings)
  from clamp_goals_result [OF dA pA, of mrt A] obtain res where
    cg: "clamp_goals mrt present A A = Inr res"
    and cr: "\<forall>(k, g) \<in> set A. \<forall>p. map_of present (str_remove ''.pos'' k) = Some p \<longrightarrow>
          map_of res k =
            (case (case mrt of Scalar m \<Rightarrow> Some m | PerMotor d \<Rightarrow> map_of d (str_remove ''.pos'' k)) of
               None \<Rightarrow> map_of A k
             | Some m \<Rightarrow> if \<bar>g - p\<bar> > m then Some (p + sgn (g - p) * m) else map_of A k)"
    by blast
  have s: "(case max_relative_target (config r) of
               None \<Rightarrow> Inr (filter (\<lambda>(k, v). endswith k ''.pos'') action)
             | Some mrt \<Rightarrow>
                 clamp_goals mrt (map (\<lambda>n. (n, present_position (bus r) n)) (arm_motors r))
                   (filter (\<lambda>(k, v). endswith k ''.pos'') action)
                   (filter (\<lambda>(k, v). endswith k ''.pos'') action)) = Inr res"
    using cg unfolding m A_def present_def by simp
  note ok = send_action_ok [OF c l vs W s]
  have each: "\<exists>g'. map_of (dict_update res V) key = Some g'
             \<and> (\<forall>m. (case mrt of Scalar m \<Rightarrow> Some m
                            | PerMotor d \<Rightarrow> map_of d (str_remove ''.pos'' key)) = Some m
                     \<longrightarrow> \<bar>g' - present_position (bus r) (str_remove ''.pos'' key)\<bar> \<le> m)
             \<and> (sgn (g' - present_position (bus r) (str_remove ''.pos'' key))
                   = sgn (g - present_position (bus r) (str_remove ''.pos'' key))
                 \<or> g' - present_position (bus r) (str_remove ''.pos'' key) = 0)
             \<and> ((\<forall>m. (case mrt of Scalar m \<Rightarrow> Some m
                             | PerMotor d \<Rightarrow> map_of d (str_remove ''.pos'' key)) = Some m
                      \<longrightarrow> \<bar>g - present_position (bus r) (str_remove ''.pos'' key)\<bar> \<le> m)
                 \<longrightarrow> g' = g)"
    if kg: "(key, g) \<in> set action" and e: "endswith key ''.pos''" for key g
  proof -
    define p where "p = present_position (bus r) (str_remove ''.pos'' key)"
    define cap where "cap = (case mrt of Scalar m \<Rightarrow> Some m
                            | PerMotor d \<Rightarrow> map_of d (str_remove ''.pos'' key))"
    from kg e have inA: "(key, g) \<in> set A" unfolding A_def by simp
    with dA have mA: "map_of A key = Some g" by (simp add: map_of_eq_Some_iff)
    from n kg e have "str_remove ''.pos'' key \<in> set (arm_motors r)" by auto
    then have mp: "map_of present (str_remove ''.pos'' key) = Some p"
      unfolding present_def p_def by (simp add: map_of_readings)
    have nv: "key \<notin> fst ` set V"
      using pos_not_vel [OF e] unfolding V_def by auto
    have "map_of (dict_update res V) key = map_of res key"
      by (rule map_of_dict_update_other [OF nv])
    also from cr inA mp have "\<dots> = (case cap of None \<Rightarrow> map_of A key
             | Some m \<Rightarrow> if \<bar>g - p\<bar> > m then Some (p + sgn (g - p) * m) else map_of A key)"
      unfolding cap_def by blast
    also have "\<dots> = Some (case cap of None \<Rightarrow> g
             | Some m \<Rightarrow> if \<bar>g - p\<bar> > m then p + sgn (g - p) * m else g)"
      unfolding mA by (simp split: option.splits)
    finally have sent: "map_of (dict_update res V) key = Some (case cap of None \<Rightarrow> g
             | Some m \<Rightarrow> if \<bar>g - p\<bar> > m then p + sgn (g - p) * m else g)" .
    have nl: "\<forall>m. cap = Some m \<longrightarrow> 0 \<le> m" using nn unfolding cap_def by blast
    from clamped_goal_properties [OF nl refl, of g p] sent
    show ?thesis unfolding p_def [symmetric] cap_def [symmetric] by blast
  qed
  show ?thesis
    unfolding ok V_def [symmetric]
    by (intro exI conjI, rule refl) (use each in blast)
qed

lemma connected_lekiwi_connected: "is_connected (connected_lekiwi cfg pos)"
proof -
  have "list_all cam_connected (map snd (map (\<lambda>(k, c). (k, c\<lparr>cam_connected := True\<rparr>)) cams))"
    for cams :: "camera pydict"
    by (induction cams) auto
  then show ?thesis
    by (simp add: is_connected_def connected_lekiwi_def init_def Let_def)
qed

lemma connected_lekiwi_bus:
  "link_ok (bus (connected_lekiwi cfg pos))"
  "present_position (bus (connected_lekiwi cfg pos)) = pos"
  "calls (bus (connected_lekiwi cfg pos)) = []"
  "config (connected_lekiwi cfg pos) = cfg"
  by (simp_all add: connected_lekiwi_def init_def Let_def)

lemma rest_wheels:
  "body_to_wheel_raw 0 0 0 (1 / 20) (1 / 8) 3000
     = Inr [(''base_left_wheel'', 0), (''base_back_wheel'', 0), (''base_right_wheel'', 0)]"
proof -
  have d: "wheel_degps 0 0 0 (1 / 20) (1 / 8) = [0, 0, 0]"
    by (simp add: wheel_degps_explicit)
  have m: "max_raw_computed [0, 0, 0] \<le> 3000" by (simp add: max_raw_computed_3)
  from body_to_wheel_raw_unsaturated [OF d m] show ?thesis by (simp only: degps_to_raw_zero)
qed

lemma gripper_name: "str_remove ''.pos'' ''arm_gripper.pos'' = ''arm_gripper''"
  by simp

lemma gripper_filters:
  "filter (\<lambda>(k, v). endswith k ''.pos'')
     [(''arm_gripper.pos'', g), (''x.vel'', 0), (''y.vel'', 0), (''theta.vel'', 0 :: real)]
   = [(''arm_gripper.pos'', g)]"
  "filter (\<lambda>(k, v). endswith k ''.vel'')
     [(''arm_gripper.pos'', g), (''x.vel'', 0), (''y.vel'', 0), (''theta.vel'', 0 :: real)]
   = [(''x.vel'', 0), (''y.vel'', 0), (''theta.vel'', 0)]"
  by (simp_all add: endswith_def)

lemma gripper_send:
  "fst (send_action (connected_lekiwi (default_config\<lparr>max_relative_target := Some (Scalar m)\<rparr>) (\<lambda>_. 0))
          [(''arm_gripper.pos'', g), (''x.vel'', 0), (''y.vel'', 0), (''theta.vel'', 0)])
     = Inr [(''arm_gripper.pos'', if \<bar>g\<bar> > m then sgn g * m else g),
            (''x.vel'', 0), (''y.vel'', 0), (''theta.vel'', 0)]"
proof -
  define r where "r = connected_lekiwi (default_config\<lparr>max_relative_target := Some (Scalar m)\<rparr>) (\<lambda>_. 0)"
  define action where "action = [(''arm_gripper.pos'', g), (''x.vel'', 0), (''y.vel'', 0), (''theta.vel'', 0 :: real)]"
  have c: "is_connected r" unfolding r_def by (rule connected_lekiwi_connected)
  have l: "link_ok (bus r)" unfolding r_def by (rule connected_lekiwi_bus)
  have v: "map_of action ''x.vel'' = Some 0" "map_of action ''y.vel'' = Some 0"
    "map_of action ''theta.vel'' = Some 0" by (simp_all add: action_def)
  have w: "wired r" unfolding r_def by (rule wired_connected_lekiwi)
  have s: "(case max_relative_target (config r) of
               None \<Rightarrow> Inr (filter (\<lambda>(k, v). endswith k ''.pos'') action)
             | Some mrt \<Rightarrow>
                 clamp_goals mrt (map (\<lambda>n. (n, present_position (bus r) n)) (arm_motors r))
                   (filter (\<lambda>(k, v). endswith k ''.pos'') action)
                   (filter (\<lambda>(k, v). endswith k ''.pos'') action))
           = Inr [(''arm_gripper.pos'', if \<bar>g\<bar> > m then sgn g * m else g)]"
    unfolding action_def gripper_filters wired_arm [OF w]
    by (simp add: r_def connected_lekiwi_bus dict_get_def)
  from send_action_ok [OF c l v rest_wheels s] show ?thesis
    unfolding r_def action_def gripper_filters
    by (simp add: dict_update_def)
qed

text \<open>
  The clamp as the specification states it, for every configured limit, fails for a negative
  one: with the limit \<open>-1\<close>, the gripper at 0 and the goal 5, the goal sent is \<open>-1\<close>, which is
  further from the present position than the limit and on the other side of it.
\<close>

theorem safety_clamp_counterexample:
  "max_relative_target
     (config (connected_lekiwi (default_config\<lparr>max_relative_target := Some (Scalar (- 1))\<rparr>) (\<lambda>_. 0)))
     = Some (Scalar (- 1))
   \<and> present_position
       (bus (connected_lekiwi (default_config\<lparr>max_relative_target := Some (Scalar (- 1))\<rparr>) (\<lambda>_. 0)))
       ''arm_gripper'' = 0
   \<and> fst (send_action
            (connected_lekiwi (default_config\<lparr>max_relative_target := Some (Scalar (- 1))\<rparr>) (\<lambda>_. 0))
            [(''arm_gripper.pos'', 5), (''x.vel'', 0), (''y.vel'', 0), (''theta.vel'', 0)])
       = Inr [(''arm_gripper.pos'', - 1), (''x.vel'', 0), (''y.vel'', 0), (''theta.vel'', 0)]
   \<and> \<not> \<bar>- 1 - 0 :: real\<bar> \<le> - 1
   \<and> sgn (- 1 - 0 :: real) \<noteq> sgn (5 - 0)
   \<and> (- 1 - 0 :: real) \<noteq> 0"
  by (simp add: gripper_send connected_lekiwi_bus)

theorem safety_clamp_witness:
  "is_connected (connected_lekiwi (default_config\<lparr>max_relative_target := Some (Scalar 5)\<rparr>) (\<lambda>_. 0))
   \<and> link_ok (bus (connected_lekiwi (default_config\<lparr>max_relative_target := Some (Scalar 5)\<rparr>) (\<lambda>_. 0)))
   \<and> map (map_of [(''arm_gripper.pos'', 20), (''x.vel'', 0), (''y.vel'', 0), (''theta.vel'', 0 :: real)])
         [''x.vel'', ''y.vel'', ''theta.vel''] = [Some 0, Some 0, Some 0]
   \<and> distinct (map fst [(''arm_gripper.pos'', 20), (''x.vel'', 0), (''y.vel'', 0), (''theta.vel'', 0 :: real)])
   \<and> str_remove ''.pos'' ''arm_gripper.pos''
        \<in> set (arm_motors (connected_lekiwi (default_config\<lparr>max_relative_target := Some (Scalar 5)\<rparr>) (\<lambda>_. 0)))
   \<and> max_relative_target
        (config (connected_lekiwi (default_config\<lparr>max_relative_target := Some (Scalar 5)\<rparr>) (\<lambda>_. 0)))
        = Some (Scalar 5)
   \<and> (0 :: real) \<le> 5
   \<and> fst (send_action
            (connected_lekiwi (default_config\<lparr>max_relative_target := Some (Scalar 5)\<rparr>) (\<lambda>_. 0))
            [(''arm_gripper.pos'', 20), (''x.vel'', 0), (''y.vel'', 0), (''theta.vel'', 0)])
       = Inr [(''arm_gripper.pos'', 5), (''x.vel'', 0), (''y.vel'', 0), (''theta.vel'', 0)]
   \<and> (\<exists>sent r' g'.
        send_action
          (connected_lekiwi (default_config\<lparr>max_relative_target := Some (Scalar 5)\<rparr>) (\<lambda>_. 0))
          [(''arm_gripper.pos'', 20), (''x.vel'', 0), (''y.vel'', 0), (''theta.vel'', 0)]
          = (Inr sent, r')
      \<and> map_of sent ''arm_gripper.pos'' = Some g'
      \<and> \<bar>g' - 0\<bar> \<le> 5
      \<and> (sgn (g' - 0) = sgn (20 - 0 :: real) \<or> g' - 0 = 0))"
proof -
  define r where "r = connected_lekiwi (default_config\<lparr>max_relative_target := Some (Scalar 5)\<rparr>) (\<lambda>_. 0)"
  define action where "action = [(''arm_gripper.pos'', 20), (''x.vel'', 0), (''y.vel'', 0), (''theta.vel'', 0 :: real)]"
  have w: "wired r" unfolding r_def by (rule wired_connected_lekiwi)
  have c: "is_connected r" unfolding r_def by (rule connected_lekiwi_connected)
  have l: "link_ok (bus r)" unfolding r_def by (rule connected_lekiwi_bus)
  have vm: "map (map_of action) [''x.vel'', ''y.vel'', ''theta.vel''] = [Some 0, Some 0, Some 0]"
    by (simp add: action_def)
  have v: "map_of action ''x.vel'' \<noteq> None" "map_of action ''y.vel'' \<noteq> None"
    "map_of action ''theta.vel'' \<noteq> None" by (simp_all add: action_def)
  have d: "distinct (map fst action)" by (simp add: action_def)
  have a: "str_remove ''.pos'' ''arm_gripper.pos'' \<in> set (arm_motors r)"
    by (simp add: wired_arm [OF w])
  have n: "\<forall>(key, g) \<in> set action.
              endswith key ''.pos'' \<longrightarrow> str_remove ''.pos'' key \<in> set (arm_motors r)"
    by (simp add: action_def wired_arm [OF w] endswith_def)
  have m: "max_relative_target (config r) = Some (Scalar 5)"
    by (simp add: r_def connected_lekiwi_bus)
  have nn: "\<forall>name m. (case Scalar 5 of Scalar m \<Rightarrow> Some m | PerMotor d \<Rightarrow> map_of d name) = Some m
               \<longrightarrow> 0 \<le> m" by simp
  have p: "present_position (bus r) (str_remove ''.pos'' ''arm_gripper.pos'') = 0"
    by (simp add: r_def connected_lekiwi_bus)
  have e: "fst (send_action r action)
       = Inr [(''arm_gripper.pos'', 5), (''x.vel'', 0), (''y.vel'', 0), (''theta.vel'', 0)]"
    unfolding r_def action_def by (simp add: gripper_send)
  from safety_clamp [OF c l v d n m nn] obtain sent r' where
    s: "send_action r action = (Inr sent, r')"
    and q: "\<forall>(key, g) \<in> set action. endswith key ''.pos'' \<longrightarrow>
          (\<exists>g'. map_of sent key = Some g'
             \<and> (\<forall>m. (case Scalar 5 of Scalar m \<Rightarrow> Some m
                            | PerMotor d \<Rightarrow> map_of d (str_remove ''.pos'' key)) = Some m
                     \<longrightarrow> \<bar>g' - present_position (bus r) (str_remove ''.pos'' key)\<bar> \<le> m)
             \<and> (sgn (g' - present_position (bus r) (str_remove ''.pos'' key))
                   = sgn (g - present_position (bus r) (str_remove ''.pos'' key))
                 \<or> g' - present_position (bus r) (str_remove ''.pos'' key) = 0)
             \<and> ((\<forall>m. (case Scalar 5 of Scalar m \<Rightarrow> Some m
                             | PerMotor d \<Rightarrow> map_of d (str_remove ''.pos'' key)) = Some m
                      \<longrightarrow> \<bar>g - present_position (bus r) (str_remove ''.pos'' key)\<bar> \<le> m)
                 \<longrightarrow> g' = g))"
    by blast
  have mem: "(''arm_gripper.pos'', 20) \<in> set action" and en: "endswith ''arm_gripper.pos'' ''.pos''"
    by (simp_all add: action_def endswith_def)
  from bspec [OF q mem] en obtain g' where g: "map_of sent ''arm_gripper.pos'' = Some g'"
    and b1: "\<forall>m. (case Scalar 5 of Scalar m \<Rightarrow> Some m
                 | PerMotor d \<Rightarrow> map_of d (str_remove ''.pos'' ''arm_gripper.pos'')) = Some m
            \<longrightarrow> \<bar>g' - present_position (bus r) (str_remove ''.pos'' ''arm_gripper.pos'')\<bar> \<le> m"
    and b2: "sgn (g' - present_position (bus r) (str_remove ''.pos'' ''arm_gripper.pos''))
               = sgn (20 - present_position (bus r) (str_remove ''.pos'' ''arm_gripper.pos''))
             \<or> g' - present_position (bus r) (str_remove ''.pos'' ''arm_gripper.pos'') = 0"
    unfolding split_conv by blast
  from b1 have c1: "\<bar>g' - 0\<bar> \<le> 5" unfolding p by simp
  from b2 have c2: "sgn (g' - 0) = sgn (20 - 0 :: real) \<or> g' - 0 = 0" unfolding p .
  note g c1 c2
  with s have x: "\<exists>sent r' g'. send_action r action = (Inr sent, r')
      \<and> map_of sent ''arm_gripper.pos'' = Some g'
      \<and> \<bar>g' - 0\<bar> \<le> 5
      \<and> (sgn (g' - 0) = sgn (20 - 0 :: real) \<or> g' - 0 = 0)" by blast
  have z: "(0 :: real) \<le> 5" by simp
  from c l vm d a m z e x show ?thesis
    unfolding r_def action_def by (intro conjI)
qed

section \<open>What \<open>send_action\<close> returns\<close>

lemma fast_degps:
  "wheel_degps 1 0 0 (1 / 20) (1 / 8) = [- (1800 * sqrt 3 / pi), 0, 1800 * sqrt 3 / pi]"
  by (simp add: wheel_degps_explicit)

lemma fast_wheels:
  "body_to_wheel_raw 1 0 0 (1 / 20) (1 / 8) 3000
     = Inr [(''base_left_wheel'', - 3000), (''base_back_wheel'', 0), (''base_right_wheel'', 3000)]"
proof -
  define a where "a = 1800 * sqrt 3 / pi"
  define c where "c = a * (4096 / 360)"
  have apos: "0 < a" unfolding a_def by simp
  then have cpos: "0 < c" unfolding c_def by simp
  have m: "max_raw_computed [- a, 0, a] = c"
    using apos unfolding c_def by (simp add: max_raw_computed_3)
  have big: "3000 < c"
  proof -
    have "3000 * pi < 20480 * sqrt 3"
      using pi_less_4 sqrt3_lower by linarith
    then have "3000 < 20480 * sqrt 3 / pi"
      by (simp add: pos_less_divide_eq)
    also have "20480 * sqrt 3 / pi = c" unfolding c_def a_def by simp
    finally show ?thesis .
  qed
  have sc: "scale_wheel_degps 3000 [- a, 0, a] = [- a * (3000 / c), 0, a * (3000 / c)]"
    using big by (simp add: scale_wheel_degps_def m)
  have t: "a * (3000 / c) * (4096 / 360) = 3000"
    using apos unfolding c_def by simp
  have r: "degps_to_raw (a * (3000 / c)) = 3000"
  proof (rule degps_to_raw_near)
    show "real_of_int 3000 - 1 / 2 < a * (3000 / c) * (4096 / 360)" unfolding t by simp
    show "a * (3000 / c) * (4096 / 360) < real_of_int 3000 + 1 / 2" unfolding t by simp
  qed simp_all
  have t': "- a * (3000 / c) * (4096 / 360) = - 3000"
    using t by simp
  have l: "degps_to_raw (- a * (3000 / c)) = - 3000"
  proof (rule degps_to_raw_near)
    show "real_of_int (- 3000) - 1 / 2 < - a * (3000 / c) * (4096 / 360)" unfolding t' by simp
    show "- a * (3000 / c) * (4096 / 360) < real_of_int (- 3000) + 1 / 2" unfolding t' by simp
  qed simp_all
  have w: "map degps_to_raw (scale_wheel_degps 3000 [- a, 0, a]) = [- 3000, 0, 3000]"
    unfolding sc by (simp only: list.map r l degps_to_raw_zero)
  have D: "wheel_degps 1 0 0 (1 / 20) (1 / 8) = [- a, 0, a]"
    unfolding a_def by (rule fast_degps)
  show ?thesis
    unfolding body_to_wheel_raw_def Let_def D m w
    using big by simp
qed

lemma fast_wheels_body:
  "wheel_raw_to_body (- 3000) 0 3000 (1 / 20) (1 / 8)
     = Inr [(''x.vel'', 6000 * (pi / 40960) / sqrt 3), (''y.vel'', 0), (''theta.vel'', 0)]"
  by (simp add: wheel_raw_to_body_default)

lemma fast_wheels_slow: "6000 * (pi / 40960) / sqrt 3 < 3 / 10"
proof -
  have "6000 * pi < 3 / 10 * 40960 * sqrt 3"
    using pi_upper sqrt3_lower by linarith
  then show ?thesis by (simp add: pos_divide_less_eq)
qed

lemma fast_filters:
  "filter (\<lambda>(k, v). endswith k ''.pos'')
     [(''arm_gripper.pos'', g), (''x.vel'', 1), (''y.vel'', 0), (''theta.vel'', 0 :: real)]
   = [(''arm_gripper.pos'', g)]"
  "filter (\<lambda>(k, v). endswith k ''.vel'')
     [(''arm_gripper.pos'', g), (''x.vel'', 1), (''y.vel'', 0), (''theta.vel'', 0 :: real)]
   = [(''x.vel'', 1), (''y.vel'', 0), (''theta.vel'', 0)]"
  by (simp_all add: endswith_def)

lemma fast_send:
  "send_action (connected_lekiwi (default_config\<lparr>max_relative_target := Some (Scalar 5)\<rparr>) (\<lambda>_. 0))
     [(''arm_gripper.pos'', 20), (''x.vel'', 1), (''y.vel'', 0), (''theta.vel'', 0)]
   = (Inr [(''arm_gripper.pos'', 5), (''x.vel'', 1), (''y.vel'', 0), (''theta.vel'', 0)],
      (connected_lekiwi (default_config\<lparr>max_relative_target := Some (Scalar 5)\<rparr>) (\<lambda>_. 0))
        \<lparr>bus := (bus (connected_lekiwi (default_config\<lparr>max_relative_target := Some (Scalar 5)\<rparr>)
                        (\<lambda>_. 0)))
           \<lparr>calls := [SyncRead ''Present_Position''
                        [''arm_shoulder_pan'', ''arm_shoulder_lift'', ''arm_elbow_flex'',
                         ''arm_wrist_flex'', ''arm_wrist_roll'', ''arm_gripper''],
                      SyncWrite ''Goal_Position'' [(''arm_gripper'', 5)] None,
                      SyncWrite ''Goal_Velocity''
                        [(''base_left_wheel'', - 3000), (''base_back_wheel'', 0),
                         (''base_right_wheel'', 3000)] None]\<rparr>\<rparr>)"
proof -
  define r where "r = connected_lekiwi (default_config\<lparr>max_relative_target := Some (Scalar 5)\<rparr>) (\<lambda>_. 0)"
  define action where
    "action = [(''arm_gripper.pos'', 20), (''x.vel'', 1), (''y.vel'', 0), (''theta.vel'', 0 :: real)]"
  have c: "is_connected r" unfolding r_def by (rule connected_lekiwi_connected)
  have l: "link_ok (bus r)" unfolding r_def by (rule connected_lekiwi_bus)
  have v: "map_of action ''x.vel'' = Some 1" "map_of action ''y.vel'' = Some 0"
    "map_of action ''theta.vel'' = Some 0" by (simp_all add: action_def)
  have w: "wired r" unfolding r_def by (rule wired_connected_lekiwi)
  have cfg: "max_relative_target (config r) = Some (Scalar 5)"
    by (simp add: r_def connected_lekiwi_bus)
  have s: "(case max_relative_target (config r) of
               None \<Rightarrow> Inr (filter (\<lambda>(k, v). endswith k ''.pos'') action)
             | Some mrt \<Rightarrow>
                 clamp_goals mrt (map (\<lambda>n. (n, present_position (bus r) n)) (arm_motors r))
                   (filter (\<lambda>(k, v). endswith k ''.pos'') action)
                   (filter (\<lambda>(k, v). endswith k ''.pos'') action))
           = Inr [(''arm_gripper.pos'', 5)]"
    unfolding action_def fast_filters wired_arm [OF w]
    by (simp add: r_def connected_lekiwi_bus dict_get_def)
  have k: "calls (bus r) = []" unfolding r_def by (rule connected_lekiwi_bus)
  from send_action_ok [OF c l v fast_wheels s] show ?thesis
    unfolding r_def [symmetric] action_def [symmetric]
    by (simp add: cfg k wired_arm [OF w]) (simp add: action_def endswith_def dict_update_def)
qed

text \<open>
  Claim C7. \<open>send_action\<close> is documented to return the action actually sent, which may be
  clipped for safety. The position entries follow that: a goal changed by the safety clamp
  is returned as changed, the value written to \<open>Goal_Position\<close>. The velocity entries do not:
  they are the request, whatever the saturation cap made of it. With a limit of 5 on the
  arm, the gripper at 0, and the request of a gripper goal of 20 and \<open>x = 1\<close> m/s, the bus
  is written the gripper goal 5 and the wheel commands \<open>-3000\<close>, 0 and 3000, which stand for
  a body velocity under 0.3 m/s; \<open>send_action\<close> returns the gripper goal 5 and \<open>x.vel = 1\<close>.
\<close>

theorem send_action_returns_request_when_saturated:
  "fst (send_action
          (connected_lekiwi (default_config\<lparr>max_relative_target := Some (Scalar 5)\<rparr>) (\<lambda>_. 0))
          [(''arm_gripper.pos'', 20), (''x.vel'', 1), (''y.vel'', 0), (''theta.vel'', 0)])
     = Inr [(''arm_gripper.pos'', 5), (''x.vel'', 1), (''y.vel'', 0), (''theta.vel'', 0)]
   \<and> calls (bus (snd (send_action
          (connected_lekiwi (default_config\<lparr>max_relative_target := Some (Scalar 5)\<rparr>) (\<lambda>_. 0))
          [(''arm_gripper.pos'', 20), (''x.vel'', 1), (''y.vel'', 0), (''theta.vel'', 0)])))
     = [SyncRead ''Present_Position''
          [''arm_shoulder_pan'', ''arm_shoulder_lift'', ''arm_elbow_flex'', ''arm_wrist_flex'',
           ''arm_wrist_roll'', ''arm_gripper''],
        SyncWrite ''Goal_Position'' [(''arm_gripper'', 5)] None,
        SyncWrite ''Goal_Velocity''
          [(''base_left_wheel'', - 3000), (''base_back_wheel'', 0), (''base_right_wheel'', 3000)]
          None]
   \<and> wheel_raw_to_body (- 3000) 0 3000 (1 / 20) (1 / 8)
     = Inr [(''x.vel'', 6000 * (pi / 40960) / sqrt 3), (''y.vel'', 0), (''theta.vel'', 0)]
   \<and> 6000 * (pi / 40960) / sqrt 3 < 3 / 10"
  by (simp only: fast_send fst_conv snd_conv fast_wheels_body fast_wheels_slow) simp

end
